theory Spec2Isabelle
  imports Complex_Main "HOL-Library.Multiset" "HOL-Library.Product_Lexorder" "HOL-Library.AList"
begin

section \<open>Values shared by the orchestration core\<close>

text \<open>
  The payload, context and metadata dictionaries of the source are \<open>Dict[str, Any]\<close>.
  Their values are modelled by a small universe of Python values; a dictionary is an
  association list read with \<open>map_of\<close> (\<open>d.get(k)\<close>).
\<close>

datatype pyval =
    PNone
  | PBool bool
  | PInt int
  | PStr string
  | PList "pyval list"
  | PDict "(string \<times> pyval) list"

type_synonym pydict = "(string \<times> pyval) list"

text \<open>Object references: mutable Python objects live in a store, indexed by reference.\<close>

type_synonym ref = nat

subsection \<open>Python helpers\<close>

text \<open>\<open>str(n)\<close> for an integer: its decimal digits, with a minus sign when negative.\<close>

definition digit_char :: "nat \<Rightarrow> char" where
  "digit_char d = ''0123456789'' ! d"

fun str_nat :: "nat \<Rightarrow> string" where
  "str_nat n = (if n < 10 then [digit_char n] else str_nat (n div 10) @ [digit_char (n mod 10)])"

declare str_nat.simps [simp del]

definition str_int :: "int \<Rightarrow> string" where
  "str_int i = (if i < 0 then CHR ''-'' # str_nat (nat (- i)) else str_nat (nat i))"

text \<open>\<open>xs[i]\<close>: a negative index counts from the end; \<open>None\<close> stands for the
  IndexError.\<close>

definition py_nth :: "'a list \<Rightarrow> int \<Rightarrow> 'a option" where
  "py_nth xs i =
     (if 0 \<le> i \<and> i < int (length xs) then Some (xs ! nat i)
      else if i < 0 \<and> - int (length xs) \<le> i then Some (xs ! nat (int (length xs) + i))
      else None)"

text \<open>\<open>d.update(e)\<close>: the entries of \<open>e\<close> are written into \<open>d\<close> in order.\<close>

definition dict_update_all :: "pydict \<Rightarrow> pydict \<Rightarrow> pydict" where
  "dict_update_all d e = foldl (\<lambda>acc (k, v). AList.update k v acc) d e"

text \<open>The exceptions of the dictionary and list operations. \<open>IllTyped k\<close> marks a
  dictionary entry whose value does not have the declared type of the field it is read
  into: the records of this model are typed, so such a value cannot be stored.\<close>

datatype py_error = KeyError string | ValueError | IndexError | IllTyped string

definition bind_err :: "py_error + 'a \<Rightarrow> ('a \<Rightarrow> py_error + 'b) \<Rightarrow> py_error + 'b" where
  "bind_err x f = (case x of Inl e \<Rightarrow> Inl e | Inr v \<Rightarrow> f v)"

text \<open>Truthiness of a value, as \<open>if v:\<close> tests it.\<close>

fun py_truthy :: "pyval \<Rightarrow> bool" where
  "py_truthy PNone = False"
| "py_truthy (PBool b) = b"
| "py_truthy (PInt i) = (i \<noteq> 0)"
| "py_truthy (PStr s) = (s \<noteq> [])"
| "py_truthy (PList l) = (l \<noteq> [])"
| "py_truthy (PDict d) = (d \<noteq> [])"

text \<open>Reading a field of a given type: \<open>d[k]\<close> raises KeyError when the key is absent,
  \<open>d.get(k, default)\<close> yields the default.\<close>

definition as_str :: "string \<Rightarrow> pyval \<Rightarrow> py_error + string" where
  "as_str k v = (case v of PStr s \<Rightarrow> Inr s | _ \<Rightarrow> Inl (IllTyped k))"

definition as_dict :: "string \<Rightarrow> pyval \<Rightarrow> py_error + pydict" where
  "as_dict k v = (case v of PDict d \<Rightarrow> Inr d | _ \<Rightarrow> Inl (IllTyped k))"

definition as_opt_str :: "string \<Rightarrow> pyval \<Rightarrow> py_error + string option" where
  "as_opt_str k v = (case v of PNone \<Rightarrow> Inr None | PStr s \<Rightarrow> Inr (Some s) | _ \<Rightarrow> Inl (IllTyped k))"

definition as_opt_dict :: "string \<Rightarrow> pyval \<Rightarrow> py_error + pydict option" where
  "as_opt_dict k v = (case v of PNone \<Rightarrow> Inr None | PDict d \<Rightarrow> Inr (Some d) | _ \<Rightarrow> Inl (IllTyped k))"

fun as_str_list_items :: "string \<Rightarrow> pyval list \<Rightarrow> py_error + string list" where
  "as_str_list_items k [] = Inr []"
| "as_str_list_items k (PStr s # vs) =
     (case as_str_list_items k vs of Inl e \<Rightarrow> Inl e | Inr ss \<Rightarrow> Inr (s # ss))"
| "as_str_list_items k (_ # vs) = Inl (IllTyped k)"

definition as_str_list :: "string \<Rightarrow> pyval \<Rightarrow> py_error + string list" where
  "as_str_list k v = (case v of PList l \<Rightarrow> as_str_list_items k l | _ \<Rightarrow> Inl (IllTyped k))"

definition dict_item :: "pydict \<Rightarrow> string \<Rightarrow> py_error + pyval" where
  "dict_item d k = (case map_of d k of None \<Rightarrow> Inl (KeyError k) | Some v \<Rightarrow> Inr v)"

definition dict_get :: "pydict \<Rightarrow> string \<Rightarrow> pyval \<Rightarrow> pyval" where
  "dict_get d k dflt = (case map_of d k of None \<Rightarrow> dflt | Some v \<Rightarrow> v)"

subsection \<open>agent\_message.py: enumerations\<close>

datatype MessageType =
  REQUEST | RESPONSE | NOTIFY | DELEGATE | ERROR | STATUS | HANDOFF | BROADCAST

fun MessageType_value :: "MessageType \<Rightarrow> string" where
  "MessageType_value REQUEST = ''request''"
| "MessageType_value RESPONSE = ''response''"
| "MessageType_value NOTIFY = ''notify''"
| "MessageType_value DELEGATE = ''delegate''"
| "MessageType_value ERROR = ''error''"
| "MessageType_value STATUS = ''status''"
| "MessageType_value HANDOFF = ''handoff''"
| "MessageType_value BROADCAST = ''broadcast''"

text \<open>\<open>MessageType(v)\<close>: the member with that value; \<open>None\<close> stands for the ValueError.\<close>

definition MessageType_of_value :: "string \<Rightarrow> MessageType option" where
  "MessageType_of_value v =
     (if v = ''request'' then Some REQUEST
      else if v = ''response'' then Some RESPONSE
      else if v = ''notify'' then Some NOTIFY
      else if v = ''delegate'' then Some DELEGATE
      else if v = ''error'' then Some ERROR
      else if v = ''status'' then Some STATUS
      else if v = ''handoff'' then Some HANDOFF
      else if v = ''broadcast'' then Some BROADCAST
      else None)"

datatype MessagePriority = CRITICAL | HIGH | NORMAL | LOW | BACKGROUND

fun MessagePriority_value :: "MessagePriority \<Rightarrow> int" where
  "MessagePriority_value CRITICAL = 1"
| "MessagePriority_value HIGH = 2"
| "MessagePriority_value NORMAL = 3"
| "MessagePriority_value LOW = 4"
| "MessagePriority_value BACKGROUND = 5"

definition MessagePriority_of_value :: "int \<Rightarrow> MessagePriority option" where
  "MessagePriority_of_value v =
     (if v = 1 then Some CRITICAL
      else if v = 2 then Some HIGH
      else if v = 3 then Some NORMAL
      else if v = 4 then Some LOW
      else if v = 5 then Some BACKGROUND
      else None)"

text \<open>The enum constructors applied to a dictionary value. A value that is no member's
  value raises ValueError; \<open>True\<close> equals \<open>1\<close> in Python and finds \<open>CRITICAL\<close>.\<close>

definition MessageType_of :: "pyval \<Rightarrow> py_error + MessageType" where
  "MessageType_of v =
     (case v of
        PStr s \<Rightarrow> (case MessageType_of_value s of None \<Rightarrow> Inl ValueError | Some t \<Rightarrow> Inr t)
      | _ \<Rightarrow> Inl ValueError)"

definition MessagePriority_of :: "pyval \<Rightarrow> py_error + MessagePriority" where
  "MessagePriority_of v =
     (case v of
        PInt i \<Rightarrow> (case MessagePriority_of_value i of None \<Rightarrow> Inl ValueError | Some p \<Rightarrow> Inr p)
      | PBool b \<Rightarrow> (if b then Inr CRITICAL else Inl ValueError)
      | _ \<Rightarrow> Inl ValueError)"

subsection \<open>Naive datetimes\<close>

text \<open>
  Every timestamp of the source comes from \<open>datetime.utcnow()\<close>, a naive datetime:
  seven calendar fields, compared field by field from the year down.
\<close>

record datetime =
  dt_year :: nat
  dt_month :: nat
  dt_day :: nat
  dt_hour :: nat
  dt_minute :: nat
  dt_second :: nat
  dt_microsecond :: nat

definition dt_key :: "datetime \<Rightarrow> nat \<times> nat \<times> nat \<times> nat \<times> nat \<times> nat \<times> nat" where
  "dt_key d = (dt_year d, dt_month d, dt_day d, dt_hour d, dt_minute d, dt_second d,
               dt_microsecond d)"

definition dt_less :: "datetime \<Rightarrow> datetime \<Rightarrow> bool" where
  "dt_less a b = (dt_key a < dt_key b)"

text \<open>The datetimes Python can construct.\<close>

definition is_leap :: "nat \<Rightarrow> bool" where
  "is_leap y = (y mod 4 = 0 \<and> (y mod 100 \<noteq> 0 \<or> y mod 400 = 0))"

definition days_in_month :: "nat \<Rightarrow> nat \<Rightarrow> nat" where
  "days_in_month y m =
     (if m = 2 then (if is_leap y then 29 else 28)
      else if m \<in> {4, 6, 9, 11} then 30 else 31)"

definition valid_datetime :: "datetime \<Rightarrow> bool" where
  "valid_datetime d =
     (1 \<le> dt_year d \<and> dt_year d \<le> 9999 \<and> 1 \<le> dt_month d \<and> dt_month d \<le> 12
      \<and> 1 \<le> dt_day d \<and> dt_day d \<le> days_in_month (dt_year d) (dt_month d)
      \<and> dt_hour d < 24 \<and> dt_minute d < 60 \<and> dt_second d < 60
      \<and> dt_microsecond d < 1000000)"

text \<open>
  \<open>isoformat()\<close> of a naive datetime: \<open>YYYY-MM-DDTHH:MM:SS\<close>, followed by
  \<open>.ffffff\<close> when the microsecond is not zero; each number is zero-padded to its width.
\<close>

definition zfill :: "nat \<Rightarrow> string \<Rightarrow> string" where
  "zfill w s = replicate (w - length s) (CHR ''0'') @ s"

definition isoformat :: "datetime \<Rightarrow> string" where
  "isoformat d =
     zfill 4 (str_nat (dt_year d)) @ ''-'' @ zfill 2 (str_nat (dt_month d)) @ ''-''
     @ zfill 2 (str_nat (dt_day d)) @ ''T'' @ zfill 2 (str_nat (dt_hour d)) @ '':''
     @ zfill 2 (str_nat (dt_minute d)) @ '':'' @ zfill 2 (str_nat (dt_second d))
     @ (if dt_microsecond d \<noteq> 0 then ''.'' @ zfill 6 (str_nat (dt_microsecond d)) else [])"

text \<open>
  \<open>datetime.fromisoformat\<close>, on the strings \<open>isoformat\<close> emits for a naive datetime:
  the two layouts above, with every field in range. Any other string is answered with
  ValueError here (the library accepts further layouts, which no dictionary written by
  \<open>to_dict\<close> contains).
\<close>

definition digit_val :: "char \<Rightarrow> nat option" where
  "digit_val c = (case List.find (\<lambda>d. digit_char d = c) [0 ..< 10] of None \<Rightarrow> None | Some d \<Rightarrow> Some d)"

fun parse_digits :: "nat \<Rightarrow> string \<Rightarrow> nat option" where
  "parse_digits acc [] = Some acc"
| "parse_digits acc (c # cs) =
     (case digit_val c of None \<Rightarrow> None | Some d \<Rightarrow> parse_digits (10 * acc + d) cs)"

definition parse_field :: "string \<Rightarrow> nat \<Rightarrow> nat \<Rightarrow> nat option" where
  "parse_field s start len = parse_digits 0 (take len (drop start s))"

definition fromisoformat :: "string \<Rightarrow> py_error + datetime" where
  "fromisoformat s =
     (if (length s = 19 \<or> (length s = 26 \<and> s ! 19 = CHR ''.''))
         \<and> s ! 4 = CHR ''-'' \<and> s ! 7 = CHR ''-'' \<and> s ! 10 = CHR ''T''
         \<and> s ! 13 = CHR '':'' \<and> s ! 16 = CHR '':''
      then
        (case (parse_field s 0 4, parse_field s 5 2, parse_field s 8 2, parse_field s 11 2,
               parse_field s 14 2, parse_field s 17 2,
               (if length s = 26 then parse_field s 20 6 else Some 0)) of
           (Some y, Some mo, Some d, Some h, Some mi, Some se, Some us) \<Rightarrow>
             (let dt = \<lparr> dt_year = y, dt_month = mo, dt_day = d, dt_hour = h, dt_minute = mi,
                         dt_second = se, dt_microsecond = us \<rparr>
              in if valid_datetime dt then Inr dt else Inl ValueError)
         | _ \<Rightarrow> Inl ValueError)
      else Inl ValueError)"

text \<open>\<open>fromisoformat\<close> applied to a dictionary value: a value that is not a string raises
  TypeError.\<close>

definition fromisoformat_of :: "string \<Rightarrow> pyval \<Rightarrow> py_error + datetime" where
  "fromisoformat_of k v = (case v of PStr s \<Rightarrow> fromisoformat s | _ \<Rightarrow> Inl (IllTyped k))"

subsection \<open>agent\_message.py: AgentMessage\<close>

record AgentMessage =
  sender :: string
  recipient :: string
  message_type :: MessageType
  payload :: pydict
  priority :: MessagePriority
  msg_context :: pydict
  correlation_id :: string
  parent_id :: "string option"
  timestamp :: datetime
  metadata :: pydict

text \<open>
  \<open>create_response\<close> builds a new message. Its timestamp is the constructor's default
  \<open>datetime.utcnow()\<close>, passed here as \<open>now\<close>.
\<close>

definition create_response ::
  "datetime \<Rightarrow> AgentMessage \<Rightarrow> string \<Rightarrow> pydict \<Rightarrow> MessageType \<Rightarrow> AgentMessage" where
  "create_response now self sender' payload' message_type' =
     \<lparr> sender = sender',
       recipient = sender self,
       message_type = message_type',
       payload = payload',
       priority = priority self,
       msg_context = msg_context self,
       correlation_id = correlation_id self,
       parent_id = Some (correlation_id self),
       timestamp = now,
       metadata = [(''in_response_to'', PStr (correlation_id self))] \<rparr>"

definition opt_str :: "string option \<Rightarrow> pyval" where
  "opt_str x = (case x of None \<Rightarrow> PNone | Some s \<Rightarrow> PStr s)"

definition AgentMessage_to_dict :: "AgentMessage \<Rightarrow> pydict" where
  "AgentMessage_to_dict self =
     [(''sender'', PStr (sender self)),
      (''recipient'', PStr (recipient self)),
      (''message_type'', PStr (MessageType_value (message_type self))),
      (''payload'', PDict (payload self)),
      (''priority'', PInt (MessagePriority_value (priority self))),
      (''context'', PDict (msg_context self)),
      (''correlation_id'', PStr (correlation_id self)),
      (''parent_id'', opt_str (parent_id self)),
      (''timestamp'', PStr (isoformat (timestamp self))),
      (''metadata'', PDict (metadata self))]"

text \<open>\<open>AgentMessage.from_dict\<close>. The defaults \<open>str(uuid.uuid4())\<close> and
  \<open>datetime.utcnow()\<close> are the arguments \<open>fresh_uuid\<close> and \<open>now\<close>; the fields are read
  in the order of the constructor call.\<close>

definition AgentMessage_from_dict :: "string \<Rightarrow> datetime \<Rightarrow> pydict \<Rightarrow> py_error + AgentMessage" where
  "AgentMessage_from_dict fresh_uuid now data =
     bind_err (bind_err (dict_item data ''sender'') (as_str ''sender'')) (\<lambda>sender'.
     bind_err (bind_err (dict_item data ''recipient'') (as_str ''recipient'')) (\<lambda>recipient'.
     bind_err (bind_err (dict_item data ''message_type'') MessageType_of) (\<lambda>message_type'.
     bind_err (bind_err (dict_item data ''payload'') (as_dict ''payload'')) (\<lambda>payload'.
     bind_err (MessagePriority_of (dict_get data ''priority'' (PInt 3))) (\<lambda>priority'.
     bind_err (as_dict ''context'' (dict_get data ''context'' (PDict []))) (\<lambda>context'.
     bind_err (as_str ''correlation_id'' (dict_get data ''correlation_id'' (PStr fresh_uuid)))
       (\<lambda>correlation_id'.
     bind_err (as_opt_str ''parent_id'' (dict_get data ''parent_id'' PNone)) (\<lambda>parent_id'.
     bind_err (case map_of data ''timestamp'' of
                 Some v \<Rightarrow> fromisoformat_of ''timestamp'' v
               | None \<Rightarrow> Inr now) (\<lambda>timestamp'.
     bind_err (as_dict ''metadata'' (dict_get data ''metadata'' (PDict []))) (\<lambda>metadata'.
       Inr \<lparr> sender = sender', recipient = recipient', message_type = message_type',
             payload = payload', priority = priority', msg_context = context',
             correlation_id = correlation_id', parent_id = parent_id',
             timestamp = timestamp', metadata = metadata' \<rparr>))))))))))"


subsection \<open>agent\_message.py: AgentTask\<close>

text \<open>The fields \<open>priority\<close> and \<open>metadata\<close> of a task are named \<open>task_priority\<close> and
  \<open>task_metadata\<close> here (a record field name is global to the theory).\<close>

record AgentTask =
  task_id :: string
  task_type :: string
  input_data :: pydict
  assigned_agent :: "string option"
  status :: string
  result :: "pydict option"
  created_at :: datetime
  started_at :: "datetime option"
  completed_at :: "datetime option"
  parent_task_id :: "string option"
  dependencies :: "string list"
  task_priority :: MessagePriority
  task_metadata :: pydict





definition opt_iso :: "datetime option \<Rightarrow> pyval" where
  "opt_iso x = (case x of None \<Rightarrow> PNone | Some d \<Rightarrow> PStr (isoformat d))"

definition AgentTask_to_dict :: "AgentTask \<Rightarrow> pydict" where
  "AgentTask_to_dict self =
     [(''task_id'', PStr (task_id self)),
      (''task_type'', PStr (task_type self)),
      (''input_data'', PDict (input_data self)),
      (''assigned_agent'', opt_str (assigned_agent self)),
      (''status'', PStr (status self)),
      (''result'', (case result self of None \<Rightarrow> PNone | Some r \<Rightarrow> PDict r)),
      (''created_at'', PStr (isoformat (created_at self))),
      (''started_at'', opt_iso (started_at self)),
      (''completed_at'', opt_iso (completed_at self)),
      (''parent_task_id'', opt_str (parent_task_id self)),
      (''dependencies'', PList (map PStr (dependencies self))),
      (''priority'', PInt (MessagePriority_value (task_priority self))),
      (''metadata'', PDict (task_metadata self))]"

text \<open>\<open>fromisoformat(data[k]) if data.get(k) else None\<close>.\<close>

definition opt_fromisoformat :: "pydict \<Rightarrow> string \<Rightarrow> py_error + datetime option" where
  "opt_fromisoformat data k =
     (if py_truthy (dict_get data k PNone)
      then bind_err (bind_err (dict_item data k) (fromisoformat_of k)) (\<lambda>d. Inr (Some d))
      else Inr None)"

definition AgentTask_from_dict :: "datetime \<Rightarrow> pydict \<Rightarrow> py_error + AgentTask" where
  "AgentTask_from_dict now data =
     bind_err (bind_err (dict_item data ''task_id'') (as_str ''task_id'')) (\<lambda>task_id'.
     bind_err (bind_err (dict_item data ''task_type'') (as_str ''task_type'')) (\<lambda>task_type'.
     bind_err (bind_err (dict_item data ''input_data'') (as_dict ''input_data'')) (\<lambda>input_data'.
     bind_err (as_opt_str ''assigned_agent'' (dict_get data ''assigned_agent'' PNone))
       (\<lambda>assigned_agent'.
     bind_err (as_str ''status'' (dict_get data ''status'' (PStr ''pending''))) (\<lambda>status'.
     bind_err (as_opt_dict ''result'' (dict_get data ''result'' PNone)) (\<lambda>result'.
     bind_err (case map_of data ''created_at'' of
                 Some v \<Rightarrow> fromisoformat_of ''created_at'' v
               | None \<Rightarrow> Inr now) (\<lambda>created_at'.
     bind_err (opt_fromisoformat data ''started_at'') (\<lambda>started_at'.
     bind_err (opt_fromisoformat data ''completed_at'') (\<lambda>completed_at'.
     bind_err (as_opt_str ''parent_task_id'' (dict_get data ''parent_task_id'' PNone))
       (\<lambda>parent_task_id'.
     bind_err (as_str_list ''dependencies'' (dict_get data ''dependencies'' (PList [])))
       (\<lambda>dependencies'.
     bind_err (MessagePriority_of (dict_get data ''priority'' (PInt 3))) (\<lambda>priority'.
     bind_err (as_dict ''metadata'' (dict_get data ''metadata'' (PDict []))) (\<lambda>metadata'.
       Inr \<lparr> task_id = task_id', task_type = task_type', input_data = input_data',
             assigned_agent = assigned_agent', status = status', result = result',
             created_at = created_at', started_at = started_at',
             completed_at = completed_at', parent_task_id = parent_task_id',
             dependencies = dependencies', task_priority = priority',
             task_metadata = metadata' \<rparr>)))))))))))))"

section \<open>message\_bus.py: InMemoryMessageBus\<close>

text \<open>
  The bus keeps references to the message objects it is given: the queue and the history
  hold the very object the caller published. The state of the model is therefore the store
  of message objects together with the bus's own fields. Handlers are callables supplied by
  the agents; the bus stores them under the subscriber's id and the model keeps only the
  filters of a subscription.
\<close>

record Subscription =
  subscriber_id :: string
  message_types :: "MessageType list option"
  sender_filter :: "string option"
  sub_messages_received :: int

record InMemoryMessageBus =
  msg_store :: "ref \<Rightarrow> AgentMessage"
  subscriptions :: "string \<rightharpoonup> Subscription"
  direct_handlers :: "string set"
  message_queue :: "ref list"
  running :: bool
  message_history :: "ref list"
  max_history :: nat
  messages_published :: int
  messages_delivered :: int
  messages_failed :: int

definition InMemoryMessageBus_init :: "(ref \<Rightarrow> AgentMessage) \<Rightarrow> InMemoryMessageBus" where
  "InMemoryMessageBus_init st =
     \<lparr> msg_store = st, subscriptions = Map.empty, direct_handlers = {},
       message_queue = [], running = False, message_history = [], max_history = 1000,
       messages_published = 0, messages_delivered = 0, messages_failed = 0 \<rparr>"

text \<open>\<open>Subscription.matches\<close>: an empty or absent type filter and an empty or absent
  sender filter match everything (both are tested for truthiness).\<close>

definition matches :: "Subscription \<Rightarrow> AgentMessage \<Rightarrow> bool" where
  "matches sub m =
     (if (case message_types sub of None \<Rightarrow> False
          | Some ts \<Rightarrow> ts \<noteq> [] \<and> message_type m \<notin> set ts) then False
      else if (case sender_filter sub of None \<Rightarrow> False
               | Some f \<Rightarrow> f \<noteq> [] \<and> sender m \<noteq> f) then False
      else True)"

definition publish :: "InMemoryMessageBus \<Rightarrow> ref \<Rightarrow> InMemoryMessageBus" where
  "publish bus message =
     (let h = message_history bus @ [message] in
      bus\<lparr> message_queue := message_queue bus @ [message],
           messages_published := messages_published bus + 1,
           message_history := (if length h > max_history bus then tl h else h) \<rparr>)"

definition send_direct :: "InMemoryMessageBus \<Rightarrow> string \<Rightarrow> ref \<Rightarrow> InMemoryMessageBus" where
  "send_direct bus recipient_id message =
     publish
       (bus\<lparr> msg_store := (msg_store bus)
               (message := (msg_store bus message)\<lparr> recipient := recipient_id \<rparr>) \<rparr>)
       message"

definition subscribe ::
  "InMemoryMessageBus \<Rightarrow> string \<Rightarrow> MessageType list option \<Rightarrow> string option
     \<Rightarrow> InMemoryMessageBus" where
  "subscribe bus sid mts sf =
     bus\<lparr> subscriptions := (subscriptions bus)
            (sid \<mapsto> \<lparr> subscriber_id = sid,
                      message_types = (case mts of None \<Rightarrow> None
                                       | Some ts \<Rightarrow> if ts = [] then None else Some ts),
                      sender_filter = sf, sub_messages_received = 0 \<rparr>) \<rparr>"

definition unsubscribe :: "InMemoryMessageBus \<Rightarrow> string \<Rightarrow> InMemoryMessageBus" where
  "unsubscribe bus sid =
     bus\<lparr> subscriptions := (subscriptions bus)(sid := None),
          direct_handlers := direct_handlers bus - {sid} \<rparr>"

definition register_direct_handler :: "InMemoryMessageBus \<Rightarrow> string \<Rightarrow> InMemoryMessageBus" where
  "register_direct_handler bus agent_id = bus\<lparr> direct_handlers := insert agent_id (direct_handlers bus) \<rparr>"

section \<open>base\_agent.py: BaseAgent\<close>

datatype AgentState =
  A_IDLE | A_WORKING | A_REVIEWING | A_COMPLETED | A_BLOCKED | A_ERROR | A_PAUSED

text \<open>
  The fields of an agent that the lifecycle reads and writes. \<open>current_task\<close> and
  \<open>task_history\<close> hold references to task objects. The \<open>_metrics\<close> dictionary is the
  five counters; \<open>total_processing_time\<close> is a Python float, modelled by an exact
  rational. \<open>message_bus\<close> records whether a bus was configured. State-change callbacks
  are called inside a \<open>try\<close> that swallows their exceptions; the only one the core
  registers (the registry's) writes a log line, so they are left out.
\<close>

record BaseAgent =
  agent_id :: string
  agent_type :: string
  name :: string
  message_bus :: bool
  state :: AgentState
  current_task :: "ref option"
  task_history :: "ref list"
  tasks_completed :: int
  tasks_failed :: int
  messages_sent :: int
  messages_received :: int
  total_processing_time :: rat

definition is_available :: "BaseAgent \<Rightarrow> bool" where
  "is_available a = (state a \<in> set [A_IDLE, A_COMPLETED])"



text \<open>The two ways \<open>execute_task\<close> raises: the \<open>RuntimeError\<close> of an unavailable
  agent (its message names the agent and its state), and the re-raised exception of the delegated work (with its \<open>str(e)\<close>).\<close>

datatype exec_error = AgentUnavailable string AgentState | TaskExecutionFailed string

text \<open>The state \<open>execute_task\<close> works on: the agent, the store of task objects, and the
  messages the agent has published on its bus.\<close>

record agent_world =
  agent :: BaseAgent
  task_store :: "ref \<Rightarrow> AgentTask"
  published :: "AgentMessage list"







section \<open>agent\_registry.py: AgentRegistry\<close>

text \<open>
  The registry maps agent ids to agent objects (references into the store of agents) and
  agent types to the list of ids registered under them. The operations read the agent
  objects through the store \<open>st\<close>.
\<close>

record AgentRegistry =
  agents :: "string \<rightharpoonup> ref"
  agent_types :: "string \<rightharpoonup> string list"

definition AgentRegistry_init :: AgentRegistry where
  "AgentRegistry_init = \<lparr> agents = Map.empty, agent_types = Map.empty \<rparr>"

definition register_agent :: "(ref \<Rightarrow> BaseAgent) \<Rightarrow> AgentRegistry \<Rightarrow> ref \<Rightarrow> AgentRegistry" where
  "register_agent st reg a =
     (let aid = agent_id (st a); ty = agent_type (st a);
          ids = (case agent_types reg ty of None \<Rightarrow> [] | Some l \<Rightarrow> l)
      in reg\<lparr> agents := (agents reg)(aid \<mapsto> a),
              agent_types := (agent_types reg)(ty \<mapsto> ids @ [aid]) \<rparr>)"

text \<open>
  \<open>unregister_agent\<close>. \<open>list.remove\<close> deletes the first occurrence and raises
  \<open>ValueError\<close> when there is none; the entry of the id map is already deleted then.
\<close>

definition unregister_agent ::
  "(ref \<Rightarrow> BaseAgent) \<Rightarrow> AgentRegistry \<Rightarrow> string \<Rightarrow> AgentRegistry \<times> (py_error + unit)" where
  "unregister_agent st reg aid =
     (case agents reg aid of
        None \<Rightarrow> (reg, Inr ())
      | Some a \<Rightarrow>
          let ty = agent_type (st a);
              reg1 = reg\<lparr> agents := (agents reg)(aid := None) \<rparr>
          in (case agent_types reg1 ty of
                None \<Rightarrow> (reg1, Inr ())
              | Some ids \<Rightarrow>
                  if aid \<in> set ids
                  then let ids' = remove1 aid ids
                       in (reg1\<lparr> agent_types :=
                                   (if ids' = [] then (agent_types reg1)(ty := None)
                                    else (agent_types reg1)(ty \<mapsto> ids')) \<rparr>, Inr ())
                  else (reg1, Inl ValueError)))"

definition get_agent :: "AgentRegistry \<Rightarrow> string \<Rightarrow> ref option" where
  "get_agent reg aid = agents reg aid"

definition get_agents_by_type :: "AgentRegistry \<Rightarrow> string \<Rightarrow> ref list" where
  "get_agents_by_type reg ty =
     (let agent_ids = (case agent_types reg ty of None \<Rightarrow> [] | Some l \<Rightarrow> l)
      in List.map_filter (agents reg) agent_ids)"

definition get_available_agent :: "(ref \<Rightarrow> BaseAgent) \<Rightarrow> AgentRegistry \<Rightarrow> string \<Rightarrow> ref option" where
  "get_available_agent st reg ty = List.find (\<lambda>a. is_available (st a)) (get_agents_by_type reg ty)"




text \<open>A sequence of registry calls; a call that raises leaves the registry as the
  exception found it, and the caller goes on.\<close>

datatype registry_call = Register ref | Unregister string

fun registry_calls :: "(ref \<Rightarrow> BaseAgent) \<Rightarrow> AgentRegistry \<Rightarrow> registry_call list \<Rightarrow> AgentRegistry" where
  "registry_calls st reg [] = reg"
| "registry_calls st reg (Register a # cs) = registry_calls st (register_agent st reg a) cs"
| "registry_calls st reg (Unregister aid # cs) =
     registry_calls st (fst (unregister_agent st reg aid)) cs"



section \<open>workflow\_engine.py: WorkflowEngine\<close>

datatype WorkflowStatus =
  WF_PENDING | WF_RUNNING | WF_PAUSED | WF_WAITING_APPROVAL | WF_COMPLETED | WF_FAILED
  | WF_CANCELLED

datatype StepType = AGENT_TASK | PARALLEL | CONDITIONAL | HUMAN_REVIEW | LOOP | WAIT

text \<open>
  A workflow step. The fields \<open>name\<close> and \<open>metadata\<close> are named \<open>step_name\<close> and
  \<open>step_metadata\<close>. The fields read only by the agent, parallel and conditional step
  implementations (\<open>agent_type\<close>, \<open>task_type\<close>, \<open>input_mapping\<close>, \<open>condition\<close>,
  \<open>sub_steps\<close>) are inputs of those implementations, which are a parameter of the model.
\<close>

record WorkflowStep =
  step_id :: string
  step_name :: string
  step_type :: StepType
  output_mapping :: "(string \<times> string) list"
  on_failure :: string
  step_metadata :: pydict

text \<open>A workflow execution; \<open>status\<close>, \<open>context\<close>, \<open>error\<close>, \<open>metadata\<close> and the two
  timestamps carry the prefix \<open>exec_\<close>.\<close>

record WorkflowExecution =
  execution_id :: string
  exec_workflow_id :: string
  exec_status :: WorkflowStatus
  exec_context :: pydict
  current_step_index :: int
  step_results :: pydict
  exec_started_at :: "datetime option"
  exec_completed_at :: "datetime option"
  exec_error :: "string option"
  exec_metadata :: pydict

record Workflow =
  workflow_id :: string
  wf_name :: string
  steps :: "WorkflowStep list"
  initial_context :: pydict

text \<open>
  The engine. Execution objects are shared between \<open>_executions\<close> and
  \<open>_pending_approvals\<close>: both dictionaries hold references into \<open>exec_store\<close>.
\<close>

record WorkflowEngine =
  exec_store :: "ref \<Rightarrow> WorkflowExecution"
  workflows :: "string \<rightharpoonup> Workflow"
  executions :: "string \<rightharpoonup> ref"
  pending_approvals :: "string \<rightharpoonup> ref"

datatype engine_error =
  NoPendingApproval string | WorkflowNotFound string | StepIndexError

text \<open>
  The implementations of agent, parallel and conditional steps run agents chosen from the
  registry; they are the parameter \<open>impl\<close>: from the execution and the step to the
  execution they leave and the result they return, or the \<open>str(e)\<close> of the exception they
  raise. None of them assigns \<open>current_step_index\<close>; \<open>execute_step\<close> keeps the caller's.
\<close>

type_synonym step_impl =
  "WorkflowExecution \<Rightarrow> WorkflowStep \<Rightarrow> WorkflowExecution \<times> (string + pyval)"

definition execute_human_review_step ::
  "datetime \<Rightarrow> WorkflowExecution \<Rightarrow> WorkflowStep \<Rightarrow> WorkflowExecution \<times> (string + pyval)" where
  "execute_human_review_step now ex step =
     (ex\<lparr> exec_status := WF_WAITING_APPROVAL,
          exec_metadata := AList.update ''pending_review''
            (PDict [(''step_id'', PStr (step_id step)),
                    (''review_type'',
                       (case map_of (step_metadata step) ''review_type'' of
                          None \<Rightarrow> PNone | Some v \<Rightarrow> v)),
                    (''requested_at'', PStr (isoformat now))])
            (exec_metadata ex) \<rparr>,
      Inr (PDict [(''status'', PStr ''waiting_approval'')]))"

text \<open>The output mapping: for each pair, when the result is a non-empty dictionary holding
  the output key, its value is written to the context key.\<close>

definition apply_output_mapping :: "(string \<times> string) list \<Rightarrow> pyval \<Rightarrow> pydict \<Rightarrow> pydict" where
  "apply_output_mapping om res ctx =
     foldl (\<lambda>c (output_key, context_key).
              (case res of
                 PDict d \<Rightarrow> (case map_of d output_key of
                               Some v \<Rightarrow> AList.update context_key v c
                             | None \<Rightarrow> c)
               | _ \<Rightarrow> c))
           ctx om"

definition execute_step ::
  "step_impl \<Rightarrow> datetime \<Rightarrow> WorkflowExecution \<Rightarrow> WorkflowStep
     \<Rightarrow> WorkflowExecution \<times> (string + pyval)" where
  "execute_step impl now ex step =
     (let (ex1, r) =
            (if step_type step = AGENT_TASK then impl ex step
             else if step_type step = HUMAN_REVIEW then execute_human_review_step now ex step
             else if step_type step = PARALLEL then impl ex step
             else if step_type step = CONDITIONAL then impl ex step
             else (ex, Inl ''Unknown step type''));
          ex2 = ex1\<lparr> current_step_index := current_step_index ex \<rparr>
      in case r of
           Inr res \<Rightarrow>
             (ex2\<lparr> exec_context := apply_output_mapping (output_mapping step) res (exec_context ex2) \<rparr>,
              Inr res)
         | Inl e \<Rightarrow>
             if on_failure step = ''skip''
             then (ex2, Inr (PDict [(''skipped'', PBool True), (''error'', PStr e)]))
             else if on_failure step = ''retry'' then (ex2, Inr PNone)
             else (ex2\<lparr> exec_status := WF_FAILED, exec_error := Some e \<rparr>, Inl e))"

lemma execute_step_index [simp]:
  "current_step_index (fst (execute_step impl now ex step)) = current_step_index ex"
  by (simp add: execute_step_def Let_def split: prod.splits sum.splits)

text \<open>How the step loop of \<open>_run_workflow\<close> ends: it returns at a pause, leaves the loop
  (the steps are exhausted, or a step left the execution failed), or an exception reaches the
  \<open>except\<close> clause.\<close>

datatype loop_exit = Paused | Left | Raised string

function run_steps ::
  "step_impl \<Rightarrow> datetime \<Rightarrow> Workflow \<Rightarrow> WorkflowExecution \<Rightarrow> WorkflowExecution \<times> loop_exit" where
  "run_steps impl now flow ex =
     (if current_step_index ex < int (length (steps flow))
      then (case py_nth (steps flow) (current_step_index ex) of
              None \<Rightarrow> (ex, Raised ''list index out of range'')
            | Some step \<Rightarrow>
                (case snd (execute_step impl now ex step) of
                   Inl e \<Rightarrow> (fst (execute_step impl now ex step), Raised e)
                 | Inr res \<Rightarrow>
                     let ex1 = fst (execute_step impl now ex step);
                         ex2 = ex1\<lparr> step_results :=
                                      AList.update (step_id step) res (step_results ex1) \<rparr>
                     in if exec_status ex2 = WF_WAITING_APPROVAL then (ex2, Paused)
                        else if exec_status ex2 = WF_FAILED then (ex2, Left)
                        else run_steps impl now flow
                               (ex2\<lparr> current_step_index := current_step_index ex2 + 1 \<rparr>)))
      else (ex, Left))"
  by pat_completeness auto
termination
  by (relation "measure (\<lambda>(impl, now, flow, ex). nat (int (length (steps flow)) - current_step_index ex))")
     auto

declare run_steps.simps [simp del]

text \<open>\<open>_run_workflow\<close> on the execution object \<open>r\<close>. Event handlers are callables of
  the caller whose exceptions are swallowed; they are left out.\<close>

definition run_workflow ::
  "step_impl \<Rightarrow> datetime \<Rightarrow> WorkflowEngine \<Rightarrow> ref \<Rightarrow> Workflow \<Rightarrow> WorkflowEngine" where
  "run_workflow impl now eng r flow =
     (let ex0 = (exec_store eng r)\<lparr> exec_status := WF_RUNNING \<rparr>;
          (ex1, how) = run_steps impl now flow ex0
      in case how of
           Paused \<Rightarrow>
             eng\<lparr> exec_store := (exec_store eng)(r := ex1),
                  pending_approvals := (pending_approvals eng)(execution_id ex1 \<mapsto> r) \<rparr>
         | Left \<Rightarrow>
             eng\<lparr> exec_store := (exec_store eng)
                    (r := (if exec_status ex1 = WF_RUNNING
                           then ex1\<lparr> exec_status := WF_COMPLETED, exec_completed_at := Some now \<rparr>
                           else ex1)) \<rparr>
         | Raised e \<Rightarrow>
             eng\<lparr> exec_store := (exec_store eng)
                    (r := ex1\<lparr> exec_status := WF_FAILED, exec_error := Some e,
                              exec_completed_at := Some now \<rparr>) \<rparr>)"

text \<open>\<open>execute_workflow\<close>: the new execution object is allocated at \<open>new_ref\<close> with the
  fresh id \<open>fresh_uuid\<close>.\<close>

definition execute_workflow ::
  "step_impl \<Rightarrow> datetime \<Rightarrow> string \<Rightarrow> ref \<Rightarrow> WorkflowEngine \<Rightarrow> string \<Rightarrow> pydict option
     \<Rightarrow> WorkflowEngine \<times> (engine_error + ref)" where
  "execute_workflow impl now fresh_uuid new_ref eng wid ctx =
     (case workflows eng wid of
        None \<Rightarrow> (eng, Inl (WorkflowNotFound wid))
      | Some flow \<Rightarrow>
          let ex = \<lparr> execution_id = fresh_uuid, exec_workflow_id = wid,
                     exec_status = WF_PENDING,
                     exec_context = dict_update_all (dict_update_all [] (initial_context flow))
                                      (case ctx of None \<Rightarrow> [] | Some c \<Rightarrow> c),
                     current_step_index = 0, step_results = [],
                     exec_started_at = Some now, exec_completed_at = None,
                     exec_error = None, exec_metadata = [] \<rparr>;
              eng1 = eng\<lparr> exec_store := (exec_store eng)(new_ref := ex),
                          executions := (executions eng)(fresh_uuid \<mapsto> new_ref) \<rparr>
          in (run_workflow impl now eng1 new_ref flow, Inr new_ref))"

text \<open>
  \<open>approve_step\<close> and \<open>reject_step\<close> first update the paused execution object and then
  call \<open>_run_workflow\<close> on it. The updates are named here: \<open>with_context_updates\<close>
  (\<open>if context_updates: execution.context.update(context_updates)\<close>),
  \<open>approve_update\<close> and \<open>reject_update\<close> (the assignments up to the call of
  \<open>_run_workflow\<close>).
\<close>

definition with_context_updates :: "WorkflowExecution \<Rightarrow> pydict option \<Rightarrow> WorkflowExecution" where
  "with_context_updates ex context_updates =
     (case context_updates of
        None \<Rightarrow> ex
      | Some u \<Rightarrow> if u = [] then ex
                  else ex\<lparr> exec_context := dict_update_all (exec_context ex) u \<rparr>)"

definition approve_update :: "datetime \<Rightarrow> WorkflowExecution \<Rightarrow> string option \<Rightarrow> WorkflowExecution" where
  "approve_update now ex feedback =
     (let ex2 = ex\<lparr> step_results :=
                   AList.update (''approval_'' @ str_int (current_step_index ex))
                     (PDict [(''approved'', PBool True),
                             (''feedback'', opt_str feedback),
                             (''approved_at'', PStr (isoformat now))])
                     (step_results ex) \<rparr>
      in ex2\<lparr> current_step_index := current_step_index ex2 + 1,
               exec_status := WF_RUNNING \<rparr>)"

definition reject_update ::
  "datetime \<Rightarrow> WorkflowExecution \<Rightarrow> WorkflowStep \<Rightarrow> string \<Rightarrow> WorkflowExecution" where
  "reject_update now ex current_step feedback =
     (let ex2 = ex\<lparr> exec_context :=
                   AList.update (step_name current_step @ ''_review_status'')
                     (PStr ''rejected'')
                     (AList.update (step_name current_step @ ''_feedback'')
                        (PStr feedback) (exec_context ex)) \<rparr>;
          ex3 = ex2\<lparr> step_results :=
                   AList.update (''approval_'' @ str_int (current_step_index ex2))
                     (PDict [(''approved'', PBool False),
                             (''feedback'', PStr feedback),
                             (''rejected_at'', PStr (isoformat now))])
                     (step_results ex2) \<rparr>;
          ex4 = (if current_step_index ex3 > 0
                 then ex3\<lparr> current_step_index := current_step_index ex3 - 1 \<rparr>
                 else ex3)
      in ex4\<lparr> exec_status := WF_RUNNING \<rparr>)"

text \<open>\<open>approve_step\<close>. The function returns the engine it leaves and the exception it
  raises, if any.\<close>

definition approve_step ::
  "step_impl \<Rightarrow> datetime \<Rightarrow> WorkflowEngine \<Rightarrow> string \<Rightarrow> string option \<Rightarrow> pydict option
     \<Rightarrow> WorkflowEngine \<times> (engine_error + unit)" where
  "approve_step impl now eng eid feedback context_updates =
     (case pending_approvals eng eid of
        None \<Rightarrow> (eng, Inl (NoPendingApproval eid))
      | Some r \<Rightarrow>
          (case workflows eng (exec_workflow_id (exec_store eng r)) of
             None \<Rightarrow> (eng, Inl (WorkflowNotFound (exec_workflow_id (exec_store eng r))))
           | Some flow \<Rightarrow>
               let ex1 = with_context_updates (exec_store eng r) context_updates;
                   eng1 = eng\<lparr> exec_store := (exec_store eng)(r := approve_update now ex1 feedback),
                               pending_approvals := (pending_approvals eng)(eid := None) \<rparr>
               in (run_workflow impl now eng1 r flow, Inr ())))"

text \<open>\<open>reject_step\<close>. Reading \<open>workflow.steps[current_step_index]\<close> can raise
  IndexError, after the context updates have been applied.\<close>

definition reject_step ::
  "step_impl \<Rightarrow> datetime \<Rightarrow> WorkflowEngine \<Rightarrow> string \<Rightarrow> string \<Rightarrow> pydict option
     \<Rightarrow> WorkflowEngine \<times> (engine_error + unit)" where
  "reject_step impl now eng eid feedback context_updates =
     (case pending_approvals eng eid of
        None \<Rightarrow> (eng, Inl (NoPendingApproval eid))
      | Some r \<Rightarrow>
          (case workflows eng (exec_workflow_id (exec_store eng r)) of
             None \<Rightarrow> (eng, Inl (WorkflowNotFound (exec_workflow_id (exec_store eng r))))
           | Some flow \<Rightarrow>
               let ex1 = with_context_updates (exec_store eng r) context_updates
               in (case py_nth (steps flow) (current_step_index ex1) of
                     None \<Rightarrow> (eng\<lparr> exec_store := (exec_store eng)(r := ex1) \<rparr>, Inl StepIndexError)
                   | Some current_step \<Rightarrow>
                       let eng1 = eng\<lparr> exec_store := (exec_store eng)
                                          (r := reject_update now ex1 current_step feedback),
                                       pending_approvals := (pending_approvals eng)(eid := None) \<rparr>
                       in (run_workflow impl now eng1 r flow, Inr ()))))"

definition get_execution :: "WorkflowEngine \<Rightarrow> string \<Rightarrow> ref option" where
  "get_execution eng eid = executions eng eid"

definition register_workflow :: "WorkflowEngine \<Rightarrow> Workflow \<Rightarrow> WorkflowEngine" where
  "register_workflow eng flow = eng\<lparr> workflows := (workflows eng)(workflow_id flow \<mapsto> flow) \<rparr>"

definition WorkflowEngine_init :: "(ref \<Rightarrow> WorkflowExecution) \<Rightarrow> WorkflowEngine" where
  "WorkflowEngine_init st =
     \<lparr> exec_store = st, workflows = Map.empty, executions = Map.empty,
       pending_approvals = Map.empty \<rparr>"

section \<open>task\_queue.py: the priority queue\<close>

subsection \<open>PriorityQueueItem\<close>

text \<open>The fields \<open>priority\<close>, \<open>timestamp\<close> and \<open>task\<close> carry the prefix \<open>item_\<close>;
  \<open>item_task\<close> is a reference to the task object.\<close>

record PriorityQueueItem =
  item_priority :: int
  item_timestamp :: datetime
  item_task :: ref

text \<open>\<open>__lt__\<close>: the lower priority number first, then the earlier timestamp.\<close>

definition item_lt :: "PriorityQueueItem \<Rightarrow> PriorityQueueItem \<Rightarrow> bool" where
  "item_lt self other =
     (if item_priority self \<noteq> item_priority other
      then item_priority self < item_priority other
      else dt_less (item_timestamp self) (item_timestamp other))"

subsection \<open>The heap operations of the standard library\<close>

text \<open>
  \<open>heapq.heappush\<close> and \<open>heapq.heappop\<close> on a Python list, as the library implements
  them: \<open>_siftdown\<close> moves the item at \<open>pos\<close> towards the root while it is less than its
  parent, \<open>_siftup\<close> moves the smaller child up until a leaf is reached and then sifts the
  displaced item down from there. The only comparison is \<open>__lt__\<close>.
\<close>

function siftdown_loop ::
  "PriorityQueueItem \<Rightarrow> PriorityQueueItem list \<Rightarrow> nat \<Rightarrow> nat \<Rightarrow> PriorityQueueItem list" where
  "siftdown_loop newitem heap startpos pos =
     (if pos > startpos
      then (let parentpos = (pos - 1) div 2;
                parent = heap ! parentpos
            in if item_lt newitem parent
               then siftdown_loop newitem (heap[pos := parent]) startpos parentpos
               else heap[pos := newitem])
      else heap[pos := newitem])"
  by pat_completeness auto
termination
  by (relation "measure (\<lambda>(newitem, heap, startpos, pos). pos)") auto

declare siftdown_loop.simps [simp del]

definition siftdown :: "PriorityQueueItem list \<Rightarrow> nat \<Rightarrow> nat \<Rightarrow> PriorityQueueItem list" where
  "siftdown heap startpos pos = siftdown_loop (heap ! pos) heap startpos pos"

function siftup_loop :: "PriorityQueueItem list \<Rightarrow> nat \<Rightarrow> nat \<times> PriorityQueueItem list" where
  "siftup_loop heap pos =
     (let childpos = 2 * pos + 1
      in if childpos < length heap
         then (let rightpos = childpos + 1;
                   childpos' = (if rightpos < length heap
                                   \<and> \<not> item_lt (heap ! childpos) (heap ! rightpos)
                                then rightpos else childpos)
               in siftup_loop (heap[pos := heap ! childpos']) childpos')
         else (pos, heap))"
  by pat_completeness auto
termination
  by (relation "measure (\<lambda>(heap, pos). length heap - pos)") auto

declare siftup_loop.simps [simp del]

definition siftup :: "PriorityQueueItem list \<Rightarrow> nat \<Rightarrow> PriorityQueueItem list" where
  "siftup heap pos =
     (let newitem = heap ! pos;
          (p, h) = siftup_loop heap pos
      in siftdown (h[p := newitem]) pos p)"

definition heappush :: "PriorityQueueItem list \<Rightarrow> PriorityQueueItem \<Rightarrow> PriorityQueueItem list" where
  "heappush heap item = siftdown (heap @ [item]) 0 (length heap)"

text \<open>\<open>heappop\<close>; \<open>None\<close> stands for the IndexError of popping from an empty list.\<close>

definition heappop ::
  "PriorityQueueItem list \<Rightarrow> (PriorityQueueItem \<times> PriorityQueueItem list) option" where
  "heappop heap =
     (if heap = [] then None
      else (let lastelt = last heap;
                heap' = butlast heap
            in if heap' \<noteq> []
               then Some (heap' ! 0, siftup (heap'[0 := lastelt]) 0)
               else Some (lastelt, heap')))"

lemma length_siftdown_loop [simp]:
  "length (siftdown_loop x heap startpos pos) = length heap"
  by (induction x heap startpos pos rule: siftdown_loop.induct)
     (subst siftdown_loop.simps, simp add: Let_def)

lemma length_siftup_loop [simp]: "length (snd (siftup_loop heap pos)) = length heap"
  by (induction heap pos rule: siftup_loop.induct)
     (subst siftup_loop.simps, simp add: Let_def)

lemma length_siftup [simp]: "length (siftup heap pos) = length heap"
proof (cases "siftup_loop heap pos")
  case (Pair p h)
  with length_siftup_loop[of heap pos] have "length h = length heap" by simp
  with Pair show ?thesis by (simp add: siftup_def siftdown_def Let_def)
qed

lemma length_heappush [simp]: "length (heappush heap item) = Suc (length heap)"
  by (simp add: heappush_def siftdown_def)

lemma length_heappop:
  "heappop heap = Some (x, heap') \<Longrightarrow> Suc (length heap') = length heap"
  by (cases heap rule: rev_cases) (auto simp: heappop_def Let_def split: if_splits)

subsection \<open>InMemoryTaskQueue\<close>

text \<open>
  The queue holds references to task objects: the heap items, the id map \<open>_tasks\<close> and the
  four status buckets all point into the store \<open>task_objs\<close>. Callbacks are callables of
  the caller whose exceptions are swallowed; the queue is modelled with none registered.
\<close>

record InMemoryTaskQueue =
  task_objs :: "ref \<Rightarrow> AgentTask"
  queue :: "PriorityQueueItem list"
  type_queues :: "string \<rightharpoonup> PriorityQueueItem list"
  tasks :: "string \<rightharpoonup> ref"
  pending_tasks :: "string \<rightharpoonup> ref"
  running_tasks :: "string \<rightharpoonup> ref"
  completed_tasks :: "string \<rightharpoonup> ref"
  failed_tasks :: "string \<rightharpoonup> ref"
  total_enqueued :: int
  total_completed :: int
  total_failed :: int

definition InMemoryTaskQueue_init :: "(ref \<Rightarrow> AgentTask) \<Rightarrow> InMemoryTaskQueue" where
  "InMemoryTaskQueue_init st =
     \<lparr> task_objs = st, queue = [], type_queues = Map.empty, tasks = Map.empty,
       pending_tasks = Map.empty, running_tasks = Map.empty, completed_tasks = Map.empty,
       failed_tasks = Map.empty, total_enqueued = 0, total_completed = 0, total_failed = 0 \<rparr>"

text \<open>The key of the per-type queue: \<open>assigned_agent.split("-")[0]\<close> when the name
  contains a dash, the whole name otherwise.\<close>

definition agent_type_of :: "string \<Rightarrow> string" where
  "agent_type_of a = (if CHR ''-'' \<in> set a then takeWhile (\<lambda>c. c \<noteq> CHR ''-'') a else a)"

definition enqueue :: "InMemoryTaskQueue \<Rightarrow> ref \<Rightarrow> InMemoryTaskQueue \<times> string" where
  "enqueue q t =
     (let task = task_objs q t;
          item = \<lparr> item_priority = MessagePriority_value (task_priority task),
                   item_timestamp = created_at task,
                   item_task = t \<rparr>;
          q1 = q\<lparr> tasks := (tasks q)(task_id task \<mapsto> t),
                  pending_tasks := (pending_tasks q)(task_id task \<mapsto> t),
                  queue := heappush (queue q) item \<rparr>;
          q2 = (case assigned_agent task of
                  None \<Rightarrow> q1
                | Some a \<Rightarrow>
                    if a = [] then q1
                    else q1\<lparr> type_queues := (type_queues q1)
                              (agent_type_of a \<mapsto>
                                 heappush (case type_queues q1 (agent_type_of a) of
                                             None \<Rightarrow> [] | Some h \<Rightarrow> h) item) \<rparr>)
      in (q2\<lparr> total_enqueued := total_enqueued q2 + 1 \<rparr>, task_id task))"

text \<open>The \<open>while queue:\<close> loop of \<open>dequeue\<close>: items are popped until one is found whose
  task id is still in the pending bucket. It returns the heap it leaves and the task found.\<close>

function dequeue_loop ::
  "(ref \<Rightarrow> AgentTask) \<Rightarrow> (string \<rightharpoonup> ref) \<Rightarrow> PriorityQueueItem list
     \<Rightarrow> PriorityQueueItem list \<times> ref option" where
  "dequeue_loop st pending heap =
     (case heappop heap of
        None \<Rightarrow> (heap, None)
      | Some (item, heap') \<Rightarrow>
          if task_id (st (item_task item)) \<in> dom pending
          then (heap', Some (item_task item))
          else dequeue_loop st pending heap')"
  by pat_completeness auto
termination
  by (relation "measure (\<lambda>(st, pending, heap). length heap)")
     (auto dest: length_heappop)

declare dequeue_loop.simps [simp del]

text \<open>\<open>dequeue\<close>: the per-type queue is used when a non-empty \<open>agent_type\<close> is given and
  is a key of \<open>_type_queues\<close>, the main queue otherwise.\<close>

definition dequeue :: "InMemoryTaskQueue \<Rightarrow> string option \<Rightarrow> InMemoryTaskQueue \<times> ref option" where
  "dequeue q agent_type' =
     (let typed = (case agent_type' of
                     None \<Rightarrow> None
                   | Some a \<Rightarrow> if a \<noteq> [] then
                                (case type_queues q a of None \<Rightarrow> None | Some h \<Rightarrow> Some (a, h))
                              else None);
          (heap', found) = dequeue_loop (task_objs q) (pending_tasks q)
                             (case typed of None \<Rightarrow> queue q | Some (a, h) \<Rightarrow> h);
          q1 = (case typed of
                  None \<Rightarrow> q\<lparr> queue := heap' \<rparr>
                | Some (a, h) \<Rightarrow> q\<lparr> type_queues := (type_queues q)(a \<mapsto> heap') \<rparr>)
      in case found of
           None \<Rightarrow> (q1, None)
         | Some t \<Rightarrow>
             (q1\<lparr> pending_tasks := (pending_tasks q1)(task_id (task_objs q t) := None),
                  running_tasks := (running_tasks q1)(task_id (task_objs q t) \<mapsto> t) \<rparr>,
              Some t))"

definition get_task :: "InMemoryTaskQueue \<Rightarrow> string \<Rightarrow> ref option" where
  "get_task q tid = tasks q tid"

text \<open>\<open>update_task\<close>: the id is deleted from the first bucket that holds it, then the task
  is filed under its status; a status without a bucket files it nowhere.\<close>

definition update_task :: "InMemoryTaskQueue \<Rightarrow> ref \<Rightarrow> InMemoryTaskQueue" where
  "update_task q t =
     (let task = task_objs q t; tid = task_id task;
          q1 = q\<lparr> tasks := (tasks q)(tid \<mapsto> t) \<rparr>;
          q2 = (if tid \<in> dom (pending_tasks q1)
                then q1\<lparr> pending_tasks := (pending_tasks q1)(tid := None) \<rparr>
                else if tid \<in> dom (running_tasks q1)
                then q1\<lparr> running_tasks := (running_tasks q1)(tid := None) \<rparr>
                else if tid \<in> dom (completed_tasks q1)
                then q1\<lparr> completed_tasks := (completed_tasks q1)(tid := None) \<rparr>
                else if tid \<in> dom (failed_tasks q1)
                then q1\<lparr> failed_tasks := (failed_tasks q1)(tid := None) \<rparr>
                else q1)
      in if status task = ''pending''
         then q2\<lparr> pending_tasks := (pending_tasks q2)(tid \<mapsto> t) \<rparr>
         else if status task = ''running''
         then q2\<lparr> running_tasks := (running_tasks q2)(tid \<mapsto> t) \<rparr>
         else if status task = ''completed''
         then q2\<lparr> completed_tasks := (completed_tasks q2)(tid \<mapsto> t),
                   total_completed := total_completed q2 + 1 \<rparr>
         else if status task = ''failed''
         then q2\<lparr> failed_tasks := (failed_tasks q2)(tid \<mapsto> t),
                   total_failed := total_failed q2 + 1 \<rparr>
         else q2)"

definition retry_task :: "InMemoryTaskQueue \<Rightarrow> string \<Rightarrow> InMemoryTaskQueue \<times> bool" where
  "retry_task q tid =
     (case failed_tasks q tid of
        None \<Rightarrow> (q, False)
      | Some t \<Rightarrow>
          let q1 = q\<lparr> task_objs := (task_objs q)
                        (t := (task_objs q t)\<lparr> status := ''pending'', result := None,
                                                started_at := None, completed_at := None \<rparr>),
                      failed_tasks := (failed_tasks q)(tid := None) \<rparr>
          in (fst (enqueue q1 t), True))"

definition cancel_task :: "datetime \<Rightarrow> InMemoryTaskQueue \<Rightarrow> string \<Rightarrow> InMemoryTaskQueue \<times> bool" where
  "cancel_task now q tid =
     (case pending_tasks q tid of
        None \<Rightarrow> (q, False)
      | Some t \<Rightarrow>
          (q\<lparr> task_objs := (task_objs q)
                 (t := (task_objs q t)
                    \<lparr> status := ''cancelled'',
                      task_metadata := AList.update ''cancelled_at'' (PStr (isoformat now))
                                         (task_metadata (task_objs q t)) \<rparr>),
              pending_tasks := (pending_tasks q)(tid := None) \<rparr>, True))"

text \<open>Sequences of calls: tasks enqueued one after the other, and repeated \<open>dequeue\<close>
  calls with the results they return.\<close>

fun enqueue_all :: "InMemoryTaskQueue \<Rightarrow> ref list \<Rightarrow> InMemoryTaskQueue" where
  "enqueue_all q [] = q"
| "enqueue_all q (t # ts) = enqueue_all (fst (enqueue q t)) ts"

fun dequeue_many :: "InMemoryTaskQueue \<Rightarrow> string option list \<Rightarrow> ref option list" where
  "dequeue_many q [] = []"
| "dequeue_many q (a # as) = snd (dequeue q a) # dequeue_many (fst (dequeue q a)) as"


subsection \<open>DependencyTracker\<close>

text \<open>The fields \<open>_dependencies\<close>, \<open>_dependents\<close> and \<open>_completed\<close> carry the prefix
  \<open>tr_\<close>; the method \<open>mark_completed\<close> of the tracker is \<open>tracker_mark_completed\<close>.\<close>

record DependencyTracker =
  tr_dependencies :: "string \<rightharpoonup> string list"
  tr_dependents :: "string \<rightharpoonup> string list"
  tr_completed :: "string set"






definition get_dependents :: "DependencyTracker \<Rightarrow> string \<Rightarrow> string list" where
  "get_dependents tr tid = (case tr_dependents tr tid of None \<Rightarrow> [] | Some ds \<Rightarrow> ds)"



section \<open>Facts about the registry\<close>


text \<open>The id map is keyed by the agent's own id: \<open>register_agent\<close> stores an agent
  under \<open>agent.agent_id\<close>, and nothing else adds an entry.\<close>

definition reg_keys_ok :: "(ref \<Rightarrow> BaseAgent) \<Rightarrow> AgentRegistry \<Rightarrow> bool" where
  "reg_keys_ok st reg = (\<forall>aid r. agents reg aid = Some r \<longrightarrow> agent_id (st r) = aid)"

lemma reg_keys_ok_init: "reg_keys_ok st AgentRegistry_init"
  by (simp add: reg_keys_ok_def AgentRegistry_init_def)

lemma reg_keys_ok_register: "reg_keys_ok st reg \<Longrightarrow> reg_keys_ok st (register_agent st reg a)"
  by (simp add: reg_keys_ok_def register_agent_def Let_def)

lemma reg_keys_ok_unregister:
  "reg_keys_ok st reg \<Longrightarrow> reg_keys_ok st (fst (unregister_agent st reg aid))"
  by (auto simp: reg_keys_ok_def unregister_agent_def Let_def split: option.splits if_splits)

lemma reg_keys_ok_calls: "reg_keys_ok st reg \<Longrightarrow> reg_keys_ok st (registry_calls st reg cs)"
  by (induction st reg cs rule: registry_calls.induct)
     (simp_all add: reg_keys_ok_register reg_keys_ok_unregister)

lemma get_agents_by_type_present:
  "r \<in> set (get_agents_by_type reg ty) \<Longrightarrow> \<exists>aid. agents reg aid = Some r"
  by (auto simp: get_agents_by_type_def Let_def List.map_filter_def split: option.splits)


text \<open>Registration appends: an agent registered under an id that its type's list does not
  hold yet comes last among the agents of its type, so the order of
  \<open>get_agents_by_type\<close> is the order of registration.\<close>

lemma get_agents_by_type_register:
  assumes "agent_type (st a) = ty"
    and "agent_id (st a) \<notin> set (case agent_types reg ty of None \<Rightarrow> [] | Some l \<Rightarrow> l)"
  shows "get_agents_by_type (register_agent st reg a) ty = get_agents_by_type reg ty @ [a]"
proof -
  let ?ids = "case agent_types reg ty of None \<Rightarrow> [] | Some l \<Rightarrow> l"
  have "List.map_filter ((agents reg)(agent_id (st a) \<mapsto> a)) ?ids
          = List.map_filter (agents reg) ?ids"
    using assms(2) by (auto simp: List.map_filter_def intro!: filter_cong map_cong)
  then show ?thesis
    using assms(1)
    by (simp add: get_agents_by_type_def register_agent_def Let_def List.map_filter_def)
qed

text \<open>A concrete agent, for the worked examples.\<close>

definition mk_agent :: "string \<Rightarrow> string \<Rightarrow> AgentState \<Rightarrow> int \<Rightarrow> int \<Rightarrow> rat \<Rightarrow> BaseAgent" where
  "mk_agent aid ty s c f t =
     \<lparr> agent_id = aid, agent_type = ty, name = aid, message_bus = False, state = s,
       current_task = None, task_history = [], tasks_completed = c, tasks_failed = f,
       messages_sent = 0, messages_received = 0, total_processing_time = t \<rparr>"

text \<open>A concrete clock reading, task and environment, for the worked examples.\<close>

definition mk_time :: "nat \<Rightarrow> datetime" where
  "mk_time s = \<lparr> dt_year = 2024, dt_month = 1, dt_day = 1, dt_hour = 0, dt_minute = 0,
                 dt_second = s, dt_microsecond = 0 \<rparr>"

definition mk_task ::
  "string \<Rightarrow> MessagePriority \<Rightarrow> nat \<Rightarrow> string list \<Rightarrow> string option \<Rightarrow> AgentTask" where
  "mk_task tid p s deps ag =
     \<lparr> task_id = tid, task_type = ''work'', input_data = [], assigned_agent = ag,
       status = ''pending'', result = None, created_at = mk_time s, started_at = None,
       completed_at = None, parent_task_id = None, dependencies = deps, task_priority = p,
       task_metadata = [] \<rparr>"


section \<open>Facts about serialization\<close>

text \<open>Parsing the digits that \<open>str\<close> and the zero padding write gives the number
  back.\<close>

lemma digit_val_digit_char: "d < 10 \<Longrightarrow> digit_val (digit_char d) = Some d"
proof -
  assume "d < 10"
  then have "d \<in> {0, 1, 2, 3, 4, 5, 6, 7, 8, 9}" by auto
  then show ?thesis
    by (auto simp: digit_val_def digit_char_def upt_rec[of _ "10"] upt_rec[of _ "numeral _"])
qed

lemma digit_val_zero: "digit_val (CHR ''0'') = Some 0"
  using digit_val_digit_char[of 0] by (simp add: digit_char_def)

lemma parse_digits_append:
  "parse_digits acc (xs @ ys) =
     (case parse_digits acc xs of None \<Rightarrow> None | Some a \<Rightarrow> parse_digits a ys)"
  by (induction xs arbitrary: acc) (auto split: option.splits)

lemma parse_digits_str_nat: "parse_digits 0 (str_nat n) = Some n"
proof (induction n rule: str_nat.induct)
  case (1 n)
  show ?case
  proof (cases "n < 10")
    case True
    then show ?thesis by (subst str_nat.simps) (simp add: digit_val_digit_char)
  next
    case False
    with 1 have ih: "parse_digits 0 (str_nat (n div 10)) = Some (n div 10)" by simp
    show ?thesis
      using False
      by (subst str_nat.simps) (simp add: parse_digits_append ih digit_val_digit_char)
  qed
qed

lemma parse_digits_zeros: "parse_digits 0 (replicate k (CHR ''0'') @ s) = parse_digits 0 s"
  by (induction k) (simp_all add: digit_val_zero)

lemma length_str_nat: "n < 10 ^ w \<Longrightarrow> 0 < w \<Longrightarrow> length (str_nat n) \<le> w"
proof (induction n arbitrary: w rule: str_nat.induct)
  case (1 n)
  show ?case
  proof (cases "n < 10")
    case True
    then show ?thesis using 1(3) by (subst str_nat.simps) simp
  next
    case False
    obtain v where w: "w = Suc v" using 1(3) by (cases w) auto
    have "n div 10 < 10 ^ v" using 1(2) w by (simp add: less_mult_imp_div_less mult.commute)
    moreover have "0 < v" using False 1(2) w by (cases v) auto
    ultimately have "length (str_nat (n div 10)) \<le> v" using 1(1) False by simp
    then show ?thesis using False w by (subst str_nat.simps) simp
  qed
qed

lemma length_zfill: "length s \<le> w \<Longrightarrow> length (zfill w s) = w"
  by (simp add: zfill_def)

lemma zfill_field:
  "n < 10 ^ w \<Longrightarrow> 0 < w \<Longrightarrow>
     length (zfill w (str_nat n)) = w \<and> parse_digits 0 (zfill w (str_nat n)) = Some n"
  by (simp add: length_zfill length_str_nat) (simp add: zfill_def parse_digits_zeros parse_digits_str_nat)

lemma iso_layout:
  assumes "length Y = 4" "length M = 2" "length D = 2" "length H = 2" "length Mi = 2"
    "length S = 2"
    and "s = Y @ ''-'' @ M @ ''-'' @ D @ ''T'' @ H @ '':'' @ Mi @ '':'' @ S @ rest"
  shows "length s = 19 + length rest"
    "s ! 4 = CHR ''-''" "s ! 7 = CHR ''-''" "s ! 10 = CHR ''T''" "s ! 13 = CHR '':''"
    "s ! 16 = CHR '':''"
    "take 4 s = Y" "take 2 (drop 5 s) = M" "take 2 (drop 8 s) = D"
    "take 2 (drop 11 s) = H" "take 2 (drop 14 s) = Mi" "take 2 (drop 17 s) = S"
    "drop 19 s = rest"
  using assms by (simp_all add: nth_append)

lemma fromisoformat_isoformat:
  assumes "valid_datetime d"
  shows "fromisoformat (isoformat d) = Inr d"
proof -
  from assms have b: "dt_year d < 10 ^ 4" "dt_month d < 10 ^ 2" "dt_day d < 10 ^ 2"
    "dt_hour d < 10 ^ 2" "dt_minute d < 10 ^ 2" "dt_second d < 10 ^ 2"
    "dt_microsecond d < 10 ^ 6"
    by (auto simp: valid_datetime_def days_in_month_def split: if_splits)
  let ?Y = "zfill 4 (str_nat (dt_year d))" and ?M = "zfill 2 (str_nat (dt_month d))"
  and ?D = "zfill 2 (str_nat (dt_day d))" and ?H = "zfill 2 (str_nat (dt_hour d))"
  and ?Mi = "zfill 2 (str_nat (dt_minute d))" and ?S = "zfill 2 (str_nat (dt_second d))"
  and ?U = "zfill 6 (str_nat (dt_microsecond d))"
  let ?rest = "if dt_microsecond d \<noteq> 0 then ''.'' @ ?U else []"
  have f: "length ?Y = 4" "length ?M = 2" "length ?D = 2" "length ?H = 2" "length ?Mi = 2"
    "length ?S = 2" "length ?U = 6"
    using b zfill_field by simp_all
  have p: "parse_digits 0 ?Y = Some (dt_year d)" "parse_digits 0 ?M = Some (dt_month d)"
    "parse_digits 0 ?D = Some (dt_day d)" "parse_digits 0 ?H = Some (dt_hour d)"
    "parse_digits 0 ?Mi = Some (dt_minute d)" "parse_digits 0 ?S = Some (dt_second d)"
    "parse_digits 0 ?U = Some (dt_microsecond d)"
    using b zfill_field by simp_all
  have iso: "isoformat d = ?Y @ ''-'' @ ?M @ ''-'' @ ?D @ ''T'' @ ?H @ '':'' @ ?Mi @ '':'' @ ?S @ ?rest"
    by (simp add: isoformat_def)
  note L = iso_layout[OF f(1-6) iso]
  show ?thesis
  proof (cases "dt_microsecond d = 0")
    case True
    then have len: "length (isoformat d) = 19" using L(1) by simp
    have rec: "\<lparr>dt_year = dt_year d, dt_month = dt_month d, dt_day = dt_day d,
                 dt_hour = dt_hour d, dt_minute = dt_minute d, dt_second = dt_second d,
                 dt_microsecond = 0\<rparr> = d"
      using True by (cases d) simp
    show ?thesis
      using assms
      by (simp add: fromisoformat_def parse_field_def L(2-12) len p Let_def rec)
  next
    case False
    then have len: "length (isoformat d) = 26" using L(1) f(7) by simp
    have r: "drop 19 (isoformat d) = ''.'' @ ?U" using L(13) False by simp
    have "hd (drop 19 (isoformat d)) = isoformat d ! 19"
      by (rule hd_drop_conv_nth) (simp add: len)
    then have d19: "isoformat d ! 19 = CHR ''.''" using r by simp
    have "drop 20 (isoformat d) = drop 1 (drop 19 (isoformat d))" by simp
    then have t6: "take 6 (drop 20 (isoformat d)) = ?U" using r f(7) by simp
    have rec: "\<lparr>dt_year = dt_year d, dt_month = dt_month d, dt_day = dt_day d,
                 dt_hour = dt_hour d, dt_minute = dt_minute d, dt_second = dt_second d,
                 dt_microsecond = dt_microsecond d\<rparr> = d"
      by (cases d) simp
    show ?thesis
      using assms d19
      by (simp add: fromisoformat_def parse_field_def L(2-12) len p Let_def t6 rec)
  qed
qed

text \<open>Each field of a message and of a task is read back from its dictionary entry.\<close>

lemma MessageType_round: "MessageType_of (PStr (MessageType_value t)) = Inr t"
  by (cases t) (simp_all add: MessageType_of_def MessageType_of_value_def)

lemma MessagePriority_round: "MessagePriority_of (PInt (MessagePriority_value p)) = Inr p"
  by (cases p) (simp_all add: MessagePriority_of_def MessagePriority_of_value_def)

lemma as_str_list_round: "as_str_list k (PList (map PStr ds)) = Inr ds"
  by (induction ds) (simp_all add: as_str_list_def)

lemma as_opt_str_round: "as_opt_str k (opt_str x) = Inr x"
  by (cases x) (simp_all add: as_opt_str_def opt_str_def)

lemma isoformat_nonempty: "isoformat d \<noteq> []"
  by (simp add: isoformat_def)

lemma message_round_trip:
  assumes "valid_datetime (timestamp m)"
  shows "AgentMessage_from_dict fresh_uuid now (AgentMessage_to_dict m) = Inr m"
  using assms
  by (simp add: AgentMessage_from_dict_def AgentMessage_to_dict_def bind_err_def dict_item_def
      dict_get_def as_str_def as_dict_def MessageType_round MessagePriority_round
      as_opt_str_round fromisoformat_of_def fromisoformat_isoformat)

lemma opt_fromisoformat_round:
  assumes "map_of data k = Some (opt_iso x)" "\<forall>d. x = Some d \<longrightarrow> valid_datetime d"
  shows "opt_fromisoformat data k = Inr x"
  using assms
  by (cases x)
     (simp_all add: opt_fromisoformat_def opt_iso_def dict_get_def dict_item_def bind_err_def
        fromisoformat_of_def fromisoformat_isoformat isoformat_nonempty)

lemma task_round_trip:
  assumes "valid_datetime (created_at t)"
    "\<forall>d. started_at t = Some d \<longrightarrow> valid_datetime d"
    "\<forall>d. completed_at t = Some d \<longrightarrow> valid_datetime d"
  shows "AgentTask_from_dict now (AgentTask_to_dict t) = Inr t"
proof -
  have s: "opt_fromisoformat (AgentTask_to_dict t) ''started_at'' = Inr (started_at t)"
    by (rule opt_fromisoformat_round[OF _ assms(2)]) (simp add: AgentTask_to_dict_def)
  have c: "opt_fromisoformat (AgentTask_to_dict t) ''completed_at'' = Inr (completed_at t)"
    by (rule opt_fromisoformat_round[OF _ assms(3)]) (simp add: AgentTask_to_dict_def)
  have r: "as_opt_dict ''result'' (case result t of None \<Rightarrow> PNone | Some r \<Rightarrow> PDict r) = Inr (result t)"
    by (cases "result t") (simp_all add: as_opt_dict_def)
  show ?thesis
    unfolding AgentTask_from_dict_def s c
    using assms(1)
    by (simp add: AgentTask_to_dict_def bind_err_def dict_item_def
      dict_get_def as_str_def as_dict_def MessagePriority_round as_str_list_round
      as_opt_str_round fromisoformat_of_def fromisoformat_isoformat r)
qed

lemma explicit_correlation_id:
  assumes "map_of data ''correlation_id'' = Some (PStr c)"
    "AgentMessage_from_dict fresh_uuid now data = Inr m"
  shows "correlation_id m = c"
  using assms
  by (auto simp: AgentMessage_from_dict_def bind_err_def dict_get_def as_str_def
      split: sum.splits)

definition mk_message :: "string \<Rightarrow> string \<Rightarrow> string \<Rightarrow> AgentMessage" where
  "mk_message s r c =
     \<lparr> sender = s, recipient = r, message_type = REQUEST,
       payload = [(''action'', PStr ''build'')], priority = HIGH, msg_context = [],
       correlation_id = c, parent_id = None, timestamp = mk_time 7, metadata = [] \<rparr>"

lemma valid_mk_time: "s < 60 \<Longrightarrow> valid_datetime (mk_time s)"
  by (simp add: valid_datetime_def mk_time_def days_in_month_def)

section \<open>Facts about the workflow engine\<close>

lemma with_context_updates_index [simp]:
  "current_step_index (with_context_updates ex cu) = current_step_index ex"
  by (simp add: with_context_updates_def split: option.splits)

lemma approve_update_facts:
  "current_step_index (approve_update now ex fb) = current_step_index ex + 1"
  "exec_status (approve_update now ex fb) = WF_RUNNING"
  "exec_context (approve_update now ex fb) = exec_context ex"
  by (simp_all add: approve_update_def Let_def)

lemma reject_update_facts:
  "map_of (exec_context (reject_update now ex step fb)) (step_name step @ ''_feedback'')
     = Some (PStr fb)"
  "map_of (exec_context (reject_update now ex step fb)) (step_name step @ ''_review_status'')
     = Some (PStr ''rejected'')"
  "current_step_index (reject_update now ex step fb)
     = (if 0 < current_step_index ex then current_step_index ex - 1 else current_step_index ex)"
  "exec_status (reject_update now ex step fb) = WF_RUNNING"
  by (simp_all add: reject_update_def Let_def update_conv')

text \<open>
  The scenario of the three-step workflow: an agent step, a human review, an agent step;
  every agent step returns a result. Executing it stops at the review, with the execution
  waiting for approval at index 1.
\<close>

definition mk_step :: "string \<Rightarrow> StepType \<Rightarrow> WorkflowStep" where
  "mk_step n ty = \<lparr> step_id = n, step_name = n, step_type = ty, output_mapping = [],
                    on_failure = ''fail'', step_metadata = [] \<rparr>"

definition mk_flow :: Workflow where
  "mk_flow = \<lparr> workflow_id = ''w1'', wf_name = ''pipeline'',
               steps = [mk_step ''stories'' AGENT_TASK, mk_step ''review'' HUMAN_REVIEW,
                        mk_step ''design'' AGENT_TASK],
               initial_context = [] \<rparr>"

definition mk_impl :: step_impl where
  "mk_impl ex step = (ex, Inr (PDict [(''done'', PStr (step_name step))]))"

definition mk_blank :: WorkflowExecution where
  "mk_blank = \<lparr> execution_id = [], exec_workflow_id = [], exec_status = WF_PENDING,
                exec_context = [], current_step_index = 0, step_results = [],
                exec_started_at = None, exec_completed_at = None, exec_error = None,
                exec_metadata = [] \<rparr>"

definition mk_engine :: WorkflowEngine where
  "mk_engine = fst (execute_workflow mk_impl (mk_time 1) ''e1'' 0
                 (register_workflow (WorkflowEngine_init (\<lambda>_. mk_blank)) mk_flow) ''w1''
                 (Some [(''requirements'', PList [PStr ''X''])]))"

lemma mk_engine_paused:
  "pending_approvals mk_engine ''e1'' = Some 0
   \<and> workflows mk_engine ''w1'' = Some mk_flow
   \<and> exec_workflow_id (exec_store mk_engine 0) = ''w1''
   \<and> current_step_index (exec_store mk_engine 0) = 1
   \<and> exec_status (exec_store mk_engine 0) = WF_WAITING_APPROVAL"
  by (simp add: mk_engine_def execute_workflow_def register_workflow_def WorkflowEngine_init_def
      mk_flow_def run_workflow_def run_steps.simps py_nth_def execute_step_def mk_step_def
      mk_impl_def execute_human_review_step_def apply_output_mapping_def dict_update_all_def
      Let_def)

section \<open>Facts about the task queue\<close>

text \<open>What \<open>dequeue\<close> returns is pending, and it reads the task objects for their ids
  only.\<close>

lemma dequeue_loop_found:
  "dequeue_loop st pending heap = (heap', Some r) \<Longrightarrow> task_id (st r) \<in> dom pending"
proof (induction st pending heap rule: dequeue_loop.induct)
  case (1 st pending heap)
  show ?case
  proof (cases "heappop heap")
    case None
    with "1.prems" show ?thesis by (subst (asm) dequeue_loop.simps) simp
  next
    case (Some a)
    obtain item h where a: "a = (item, h)" by (cases a)
    show ?thesis
    proof (cases "task_id (st (item_task item)) \<in> dom pending")
      case True
      with "1.prems" Some a show ?thesis by (subst (asm) dequeue_loop.simps) auto
    next
      case False
      with "1.prems" Some a have "dequeue_loop st pending h = (heap', Some r)"
        by (subst (asm) dequeue_loop.simps) auto
      with "1.IH"[OF Some a[symmetric] False] show ?thesis by simp
    qed
  qed
qed


lemma dequeue_found:
  "snd (dequeue q a) = Some r \<Longrightarrow> task_id (task_objs q r) \<in> dom (pending_tasks q)"
  by (auto simp: dequeue_def Let_def split: prod.splits option.splits if_splits
      dest: dequeue_loop_found)

lemma dequeue_frame:
  "task_objs (fst (dequeue q a)) = task_objs q"
  "dom (pending_tasks (fst (dequeue q a))) \<subseteq> dom (pending_tasks q)"
  "tasks (fst (dequeue q a)) = tasks q"
  by (auto simp: dequeue_def Let_def split: prod.splits option.splits if_splits)

lemma dequeue_many_not_pending:
  "task_id (task_objs q t) \<notin> dom (pending_tasks q) \<Longrightarrow> Some t \<notin> set (dequeue_many q as)"
proof (induction as arbitrary: q)
  case Nil
  then show ?case by simp
next
  case (Cons a as)
  have "snd (dequeue q a) \<noteq> Some t" using Cons.prems dequeue_found by blast
  moreover have "task_id (task_objs (fst (dequeue q a)) t) \<notin> dom (pending_tasks (fst (dequeue q a)))"
    using Cons.prems dequeue_frame(1,2)[of q a] by auto
  ultimately show ?case using Cons.IH by simp
qed

text \<open>
  The buckets are keyed by the task's own id, and a pending task is the task the id map holds
  under that id: \<open>enqueue\<close> and \<open>update_task\<close> write both maps under
  \<open>task.task_id\<close>, and no operation of the queue assigns a task's id.
\<close>

definition tq_keys_ok :: "InMemoryTaskQueue \<Rightarrow> bool" where
  "tq_keys_ok q =
     (\<forall>tid t. pending_tasks q tid = Some t \<longrightarrow>
         tasks q tid = Some t \<and> task_id (task_objs q t) = tid)"

lemma tq_keys_ok_init: "tq_keys_ok (InMemoryTaskQueue_init st)"
  by (simp add: tq_keys_ok_def InMemoryTaskQueue_init_def)

lemma tq_keys_ok_enqueue: "tq_keys_ok q \<Longrightarrow> tq_keys_ok (fst (enqueue q t))"
  by (auto simp: tq_keys_ok_def enqueue_def Let_def split: option.splits if_splits)

lemma tq_keys_ok_dequeue: "tq_keys_ok q \<Longrightarrow> tq_keys_ok (fst (dequeue q a))"
  by (auto simp: tq_keys_ok_def dequeue_def Let_def split: prod.splits option.splits if_splits)

lemma tq_keys_ok_update_task: "tq_keys_ok q \<Longrightarrow> tq_keys_ok (update_task q t)"
  by (auto simp: tq_keys_ok_def update_task_def Let_def split: if_splits)

lemma tq_keys_ok_cancel_task: "tq_keys_ok q \<Longrightarrow> tq_keys_ok (fst (cancel_task now q tid))"
  by (auto simp: tq_keys_ok_def cancel_task_def Let_def split: option.splits if_splits)

lemma tq_keys_ok_retry_task: "tq_keys_ok q \<Longrightarrow> tq_keys_ok (fst (retry_task q tid))"
proof (cases "failed_tasks q tid")
  case None
  then show "tq_keys_ok q \<Longrightarrow> ?thesis" by (simp add: retry_task_def)
next
  case (Some t)
  assume ok: "tq_keys_ok q"
  let ?q1 = "q\<lparr> task_objs := (task_objs q)
                        (t := (task_objs q t)\<lparr> status := ''pending'', result := None,
                                                started_at := None, completed_at := None \<rparr>),
                      failed_tasks := (failed_tasks q)(tid := None) \<rparr>"
  have "tq_keys_ok ?q1" using ok by (auto simp: tq_keys_ok_def)
  then have "tq_keys_ok (fst (enqueue ?q1 t))" by (rule tq_keys_ok_enqueue)
  then show ?thesis using Some by (simp add: retry_task_def Let_def)
qed

lemma enqueue_frame:
  "task_objs (fst (enqueue q t)) = task_objs q"
  "pending_tasks (fst (enqueue q t)) = (pending_tasks q)(task_id (task_objs q t) \<mapsto> t)"
  "tasks (fst (enqueue q t)) = (tasks q)(task_id (task_objs q t) \<mapsto> t)"
  by (simp_all add: enqueue_def Let_def split: option.splits)

lemma tq_keys_ok_enqueue_all: "tq_keys_ok q \<Longrightarrow> tq_keys_ok (enqueue_all q ts)"
  by (induction ts arbitrary: q) (simp_all add: tq_keys_ok_enqueue)

text \<open>Four tasks for the worked examples: \<open>t\<close> depends on \<open>d\<close> and has the higher
  priority; \<open>x\<close> and \<open>y\<close> are assigned to agents of two types.\<close>

definition mk_tasks :: "ref \<Rightarrow> AgentTask" where
  "mk_tasks r = (if r = 0 then mk_task ''d'' NORMAL 1 [] None
                 else if r = 1 then mk_task ''t'' CRITICAL 2 [''d''] None
                 else if r = 2 then mk_task ''x'' LOW 3 [] (Some ''qa-1'')
                 else mk_task ''y'' HIGH 4 [] (Some ''dev-1''))"

section \<open>Facts about the dependency tracker\<close>




section \<open>Facts about the heap operations\<close>




















lemma heappop_empty [simp]: "heappop [] = None"
  by (simp add: heappop_def)


section \<open>Facts about the order of dequeued tasks\<close>

















section \<open>Best-agent selection\<close>




section \<open>The type index and the id map\<close>

text \<open>
  C10: after any sequence of \<open>register_agent\<close> and \<open>unregister_agent\<close> calls on a new
  registry, every agent \<open>a\<close> that \<open>get_agents_by_type\<close> returns is present in the id
  map under its own id: \<open>get_agent(a.agent_id)\<close> is \<open>a\<close>. Ids left in the type index
  without an entry in the id map are filtered out.
\<close>

theorem C10_get_agents_by_type_present:
  "\<forall>a \<in> set (get_agents_by_type (registry_calls st AgentRegistry_init cs) ty).
      get_agent (registry_calls st AgentRegistry_init cs) (agent_id (st a)) = Some a"
proof
  fix a assume "a \<in> set (get_agents_by_type (registry_calls st AgentRegistry_init cs) ty)"
  then obtain aid where "agents (registry_calls st AgentRegistry_init cs) aid = Some a"
    using get_agents_by_type_present by blast
  moreover have "reg_keys_ok st (registry_calls st AgentRegistry_init cs)"
    by (rule reg_keys_ok_calls[OF reg_keys_ok_init])
  ultimately show "get_agent (registry_calls st AgentRegistry_init cs) (agent_id (st a)) = Some a"
    by (simp add: reg_keys_ok_def get_agent_def)
qed

lemma registry_stale_example:
  "registry_calls (\<lambda>r. if r = 0 then mk_agent ''a'' ''dev'' A_IDLE 10 0 20
                            else mk_agent ''b'' ''dev'' A_IDLE 8 2 8)
        AgentRegistry_init [Register 0, Register 0, Unregister ''a'', Register 1]
   = \<lparr> agents = [''b'' \<mapsto> 1], agent_types = [''dev'' \<mapsto> [''a'', ''b'']] \<rparr>"
  by (simp add: register_agent_def unregister_agent_def AgentRegistry_init_def mk_agent_def Let_def)

text \<open>The theorem after registering agent \<open>a\<close> twice, unregistering it once and
  registering \<open>b\<close>: the type index keeps the stale id \<open>a\<close>, and only \<open>b\<close> is
  returned.\<close>

theorem C10_witness:
  "get_agents_by_type
     (registry_calls (\<lambda>r. if r = 0 then mk_agent ''a'' ''dev'' A_IDLE 10 0 20
                            else mk_agent ''b'' ''dev'' A_IDLE 8 2 8)
        AgentRegistry_init [Register 0, Register 0, Unregister ''a'', Register 1]) ''dev'' = [1]
   \<and> agent_types
     (registry_calls (\<lambda>r. if r = 0 then mk_agent ''a'' ''dev'' A_IDLE 10 0 20
                            else mk_agent ''b'' ''dev'' A_IDLE 8 2 8)
        AgentRegistry_init [Register 0, Register 0, Unregister ''a'', Register 1]) ''dev''
       = Some [''a'', ''b'']
   \<and> get_agent
     (registry_calls (\<lambda>r. if r = 0 then mk_agent ''a'' ''dev'' A_IDLE 10 0 20
                            else mk_agent ''b'' ''dev'' A_IDLE 8 2 8)
        AgentRegistry_init [Register 0, Register 0, Unregister ''a'', Register 1]) ''b'' = Some 1"
proof -
  let ?st = "\<lambda>r::nat. if r = 0 then mk_agent ''a'' ''dev'' A_IDLE 10 0 20
                            else mk_agent ''b'' ''dev'' A_IDLE 8 2 8"
  let ?reg = "registry_calls ?st AgentRegistry_init
                [Register 0, Register 0, Unregister ''a'', Register 1]"
  have g: "get_agents_by_type ?reg ''dev'' = [1]"
    unfolding registry_stale_example by (simp add: get_agents_by_type_def List.map_filter_def)
  have t: "agent_types ?reg ''dev'' = Some [''a'', ''b'']"
    unfolding registry_stale_example by simp
  have "1 \<in> set (get_agents_by_type ?reg ''dev'')" unfolding g by simp
  with C10_get_agents_by_type_present
         [of ?st "[Register 0, Register 0, Unregister ''a'', Register 1]" "''dev''"]
  have "get_agent ?reg (agent_id (?st 1)) = Some 1" by blast
  then have "get_agent ?reg ''b'' = Some 1" by (simp add: mk_agent_def)
  with g t show ?thesis by blast
qed

section \<open>Task execution by an agent\<close>



section \<open>Round trip through the dictionary form\<close>

text \<open>
  C6: for every message and every task (their timestamps being datetimes Python can
  construct), \<open>from_dict\<close> applied to the result of \<open>to_dict\<close> gives back a value equal
  in every field, whatever fresh id and clock reading \<open>from_dict\<close> has at hand for its
  defaults. A correlation id present in a dictionary is the correlation id of the message
  read from it: it is not regenerated.
\<close>

theorem C6_to_dict_from_dict_round_trip:
  "(valid_datetime (timestamp m) \<longrightarrow>
      AgentMessage_from_dict fresh_uuid now (AgentMessage_to_dict m) = Inr m)
   \<and> (valid_datetime (created_at t)
       \<and> (\<forall>d. started_at t = Some d \<longrightarrow> valid_datetime d)
       \<and> (\<forall>d. completed_at t = Some d \<longrightarrow> valid_datetime d) \<longrightarrow>
      AgentTask_from_dict now (AgentTask_to_dict t) = Inr t)
   \<and> (map_of data ''correlation_id'' = Some (PStr c)
       \<and> AgentMessage_from_dict fresh_uuid now data = Inr m' \<longrightarrow> correlation_id m' = c)"
  using message_round_trip task_round_trip explicit_correlation_id by blast

text \<open>The theorem at a request message and at a started task.\<close>

theorem C6_witness:
  "AgentMessage_from_dict ''fresh'' (mk_time 9)
      (AgentMessage_to_dict (mk_message ''a'' ''b'' ''c1'')) = Inr (mk_message ''a'' ''b'' ''c1'')
   \<and> AgentTask_from_dict (mk_time 9)
      (AgentTask_to_dict ((mk_task ''t1'' LOW 3 [''t0''] (Some ''dev-1''))
                            \<lparr> started_at := Some (mk_time 4) \<rparr>))
     = Inr ((mk_task ''t1'' LOW 3 [''t0''] (Some ''dev-1''))\<lparr> started_at := Some (mk_time 4) \<rparr>)
   \<and> correlation_id (mk_message ''a'' ''b'' ''c1'') = ''c1''"
proof -
  let ?m = "mk_message ''a'' ''b'' ''c1''"
  let ?t = "(mk_task ''t1'' LOW 3 [''t0''] (Some ''dev-1''))\<lparr> started_at := Some (mk_time 4) \<rparr>"
  have vm: "valid_datetime (timestamp ?m)"
    by (simp add: mk_message_def valid_mk_time)
  have vt: "valid_datetime (created_at ?t)
       \<and> (\<forall>d. started_at ?t = Some d \<longrightarrow> valid_datetime d)
       \<and> (\<forall>d. completed_at ?t = Some d \<longrightarrow> valid_datetime d)"
    by (simp add: mk_task_def valid_mk_time)
  have cid: "map_of (AgentMessage_to_dict ?m) ''correlation_id'' = Some (PStr ''c1'')"
    by (simp add: AgentMessage_to_dict_def mk_message_def)
  note inst = C6_to_dict_from_dict_round_trip
               [of ?m "''fresh''" "mk_time 9" ?t "AgentMessage_to_dict ?m" "''c1''" ?m]
  from inst vm have 1: "AgentMessage_from_dict ''fresh'' (mk_time 9) (AgentMessage_to_dict ?m) = Inr ?m"
    by blast
  from inst vt have 2: "AgentTask_from_dict (mk_time 9) (AgentTask_to_dict ?t) = Inr ?t"
    by blast
  from inst cid 1 have 3: "correlation_id ?m = ''c1''" by blast
  from 1 2 3 show ?thesis by blast
qed

section \<open>Approval and rejection of a paused execution\<close>

text \<open>
  C2: let an execution be recorded as pending approval, at step index \<open>i\<close> of its
  registered workflow. \<open>approve_step\<close> resumes the step loop on the execution updated by
  \<open>approve_update\<close>, whose \<open>current_step_index\<close> is \<open>i + 1\<close> and whose status is
  running. When \<open>i\<close> is the index of a step of the workflow, \<open>reject_step\<close> resumes the
  step loop on the execution updated by \<open>reject_update\<close>: its context holds the feedback
  under \<open>{step_name}_feedback\<close> and \<open>rejected\<close> under \<open>{step_name}_review_status\<close>,
  its \<open>current_step_index\<close> is \<open>i - 1\<close>, or 0 when \<open>i\<close> is 0, and its status is
  running.
\<close>

theorem C2_approve_advances_reject_rewinds:
  "pending_approvals eng eid = Some r
   \<and> workflows eng (exec_workflow_id (exec_store eng r)) = Some flow
   \<and> current_step_index (exec_store eng r) = i \<longrightarrow>
     approve_step impl now eng eid feedback context_updates
        = (run_workflow impl now
             (eng\<lparr> exec_store := (exec_store eng)
                     (r := approve_update now
                             (with_context_updates (exec_store eng r) context_updates) feedback),
                   pending_approvals := (pending_approvals eng)(eid := None) \<rparr>) r flow,
           Inr ())
     \<and> current_step_index
          (approve_update now (with_context_updates (exec_store eng r) context_updates) feedback)
         = i + 1
     \<and> exec_status
          (approve_update now (with_context_updates (exec_store eng r) context_updates) feedback)
         = WF_RUNNING
     \<and> (0 \<le> i \<and> i < int (length (steps flow)) \<longrightarrow>
          reject_step impl now eng eid feedback' context_updates
            = (run_workflow impl now
                 (eng\<lparr> exec_store := (exec_store eng)
                         (r := reject_update now
                                 (with_context_updates (exec_store eng r) context_updates)
                                 (steps flow ! nat i) feedback'),
                       pending_approvals := (pending_approvals eng)(eid := None) \<rparr>) r flow,
               Inr ())
          \<and> map_of (exec_context
                (reject_update now (with_context_updates (exec_store eng r) context_updates)
                   (steps flow ! nat i) feedback'))
               (step_name (steps flow ! nat i) @ ''_feedback'') = Some (PStr feedback')
          \<and> map_of (exec_context
                (reject_update now (with_context_updates (exec_store eng r) context_updates)
                   (steps flow ! nat i) feedback'))
               (step_name (steps flow ! nat i) @ ''_review_status'') = Some (PStr ''rejected'')
          \<and> current_step_index
                (reject_update now (with_context_updates (exec_store eng r) context_updates)
                   (steps flow ! nat i) feedback')
              = (if 0 < i then i - 1 else 0)
          \<and> exec_status
                (reject_update now (with_context_updates (exec_store eng r) context_updates)
                   (steps flow ! nat i) feedback')
              = WF_RUNNING)"
  by (auto simp: approve_step_def reject_step_def Let_def approve_update_facts
      reject_update_facts py_nth_def)

text \<open>The theorem at the three-step scenario, paused at its review step.\<close>

theorem C2_witness:
  "pending_approvals mk_engine ''e1'' = Some 0
   \<and> current_step_index (exec_store mk_engine 0) = 1
   \<and> current_step_index
        (approve_update (mk_time 2) (with_context_updates (exec_store mk_engine 0) None) None) = 2
   \<and> exec_status
        (approve_update (mk_time 2) (with_context_updates (exec_store mk_engine 0) None) None)
       = WF_RUNNING
   \<and> current_step_index
        (reject_update (mk_time 2) (with_context_updates (exec_store mk_engine 0) None)
           (mk_step ''review'' HUMAN_REVIEW) ''redo'') = 0
   \<and> map_of (exec_context
        (reject_update (mk_time 2) (with_context_updates (exec_store mk_engine 0) None)
           (mk_step ''review'' HUMAN_REVIEW) ''redo'')) ''review_feedback'' = Some (PStr ''redo'')"
proof -
  have h: "pending_approvals mk_engine ''e1'' = Some 0
     \<and> workflows mk_engine (exec_workflow_id (exec_store mk_engine 0)) = Some mk_flow
     \<and> current_step_index (exec_store mk_engine 0) = 1"
    using mk_engine_paused by simp
  have r: "(0::int) \<le> 1 \<and> 1 < int (length (steps mk_flow))"
    by (simp add: mk_flow_def)
  have s: "steps mk_flow ! nat 1 = mk_step ''review'' HUMAN_REVIEW"
    "step_name (mk_step ''review'' HUMAN_REVIEW) @ ''_feedback'' = ''review_feedback''"
    by (simp_all add: mk_flow_def mk_step_def)
  from C2_approve_advances_reject_rewinds
         [of mk_engine "''e1''" 0 mk_flow 1 mk_impl "mk_time 2" None None "''redo''"] h r
  show ?thesis unfolding s by simp
qed

section \<open>Approval and rejection without a pending approval\<close>

text \<open>
  C7: when the engine records no pending approval under an execution id, \<open>approve_step\<close>
  and \<open>reject_step\<close> called with that id raise the no-pending-approval error and leave
  the engine as it was: no execution's status, step index or context changes.
\<close>

theorem C7_no_pending_approval:
  "pending_approvals eng eid = None \<longrightarrow>
     approve_step impl now eng eid feedback context_updates = (eng, Inl (NoPendingApproval eid))
   \<and> reject_step impl now eng eid feedback' context_updates = (eng, Inl (NoPendingApproval eid))"
  by (simp add: approve_step_def reject_step_def)

text \<open>The theorem at an engine with a registered workflow and no execution.\<close>

theorem C7_witness:
  "approve_step mk_impl (mk_time 2)
      (register_workflow (WorkflowEngine_init (\<lambda>_. mk_blank)) mk_flow) ''e1'' None None
     = (register_workflow (WorkflowEngine_init (\<lambda>_. mk_blank)) mk_flow,
        Inl (NoPendingApproval ''e1''))
   \<and> reject_step mk_impl (mk_time 2)
      (register_workflow (WorkflowEngine_init (\<lambda>_. mk_blank)) mk_flow) ''e1'' ''redo'' None
     = (register_workflow (WorkflowEngine_init (\<lambda>_. mk_blank)) mk_flow,
        Inl (NoPendingApproval ''e1''))"
proof -
  have "pending_approvals (register_workflow (WorkflowEngine_init (\<lambda>_. mk_blank)) mk_flow) ''e1''
          = None"
    by (simp add: register_workflow_def WorkflowEngine_init_def)
  with C7_no_pending_approval
         [of "register_workflow (WorkflowEngine_init (\<lambda>_. mk_blank)) mk_flow" "''e1''"
             mk_impl "mk_time 2" None None "''redo''"]
  show ?thesis by blast
qed

section \<open>Cancelling a pending task\<close>

text \<open>
  C9: for a task \<open>t\<close> pending under the id \<open>tid\<close>, \<open>cancel_task(tid)\<close> returns true,
  sets the status of \<open>t\<close> to cancelled and removes \<open>t\<close> from the pending bucket; no
  sequence of \<open>dequeue\<close> calls made afterwards returns \<open>t\<close>, and \<open>get_task(tid)\<close>
  still returns \<open>t\<close>. For an id that is not pending, \<open>cancel_task\<close> returns false and
  changes nothing.
\<close>

theorem C9_cancel_task:
  "(tq_keys_ok q \<and> pending_tasks q tid = Some t \<longrightarrow>
      snd (cancel_task now q tid) = True
    \<and> status (task_objs (fst (cancel_task now q tid)) t) = ''cancelled''
    \<and> pending_tasks (fst (cancel_task now q tid)) tid = None
    \<and> t \<notin> ran (pending_tasks (fst (cancel_task now q tid)))
    \<and> get_task (fst (cancel_task now q tid)) tid = Some t
    \<and> (\<forall>as. Some t \<notin> set (dequeue_many (fst (cancel_task now q tid)) as)))
   \<and> (pending_tasks q tid = None \<longrightarrow> cancel_task now q tid = (q, False))"
proof (intro conjI impI)
  assume "pending_tasks q tid = None"
  then show "cancel_task now q tid = (q, False)" by (simp add: cancel_task_def)
next
  assume h: "tq_keys_ok q \<and> pending_tasks q tid = Some t"
  then have k: "tasks q tid = Some t" "task_id (task_objs q t) = tid"
    by (auto simp: tq_keys_ok_def)
  let ?q' = "fst (cancel_task now q tid)"
  show "snd (cancel_task now q tid) = True" using h by (simp add: cancel_task_def)
  show "status (task_objs ?q' t) = ''cancelled''" using h by (simp add: cancel_task_def)
  show p: "pending_tasks ?q' tid = None" using h by (simp add: cancel_task_def)
  show "t \<notin> ran (pending_tasks ?q')"
  proof
    assume "t \<in> ran (pending_tasks ?q')"
    then obtain k where "pending_tasks ?q' k = Some t" by (auto simp: ran_def)
    then have "k \<noteq> tid \<and> pending_tasks q k = Some t"
      using h by (auto simp: cancel_task_def split: if_splits)
    then show False using h k by (auto simp: tq_keys_ok_def)
  qed
  show "get_task ?q' tid = Some t" using h k by (simp add: cancel_task_def get_task_def)
  have "task_id (task_objs ?q' t) \<notin> dom (pending_tasks ?q')"
    using h k by (auto simp: cancel_task_def)
  then show "\<forall>as. Some t \<notin> set (dequeue_many ?q' as)"
    using dequeue_many_not_pending by blast
qed

text \<open>The theorem at the queue holding \<open>d\<close> and \<open>t\<close>: \<open>t\<close> is cancelled, and the two
  next \<open>dequeue\<close> calls return \<open>d\<close> and nothing.\<close>

theorem C9_witness:
  "snd (cancel_task (mk_time 5) (enqueue_all (InMemoryTaskQueue_init mk_tasks) [0, 1]) ''t'')
     = True
   \<and> status (task_objs
        (fst (cancel_task (mk_time 5) (enqueue_all (InMemoryTaskQueue_init mk_tasks) [0, 1]) ''t''))
        1) = ''cancelled''
   \<and> get_task
        (fst (cancel_task (mk_time 5) (enqueue_all (InMemoryTaskQueue_init mk_tasks) [0, 1]) ''t''))
        ''t'' = Some 1
   \<and> Some 1 \<notin> set (dequeue_many
        (fst (cancel_task (mk_time 5) (enqueue_all (InMemoryTaskQueue_init mk_tasks) [0, 1]) ''t''))
        [None, None])
   \<and> cancel_task (mk_time 5) (enqueue_all (InMemoryTaskQueue_init mk_tasks) [0, 1]) ''zz''
     = (enqueue_all (InMemoryTaskQueue_init mk_tasks) [0, 1], False)"
proof -
  let ?q = "enqueue_all (InMemoryTaskQueue_init mk_tasks) [0, 1]"
  have ok: "tq_keys_ok ?q"
    by (rule tq_keys_ok_enqueue_all[OF tq_keys_ok_init])
  have p: "pending_tasks ?q ''t'' = Some 1" "pending_tasks ?q ''zz'' = None"
    by (simp_all add: enqueue_frame InMemoryTaskQueue_init_def mk_tasks_def mk_task_def)
  from C9_cancel_task[of ?q "''t''" 1 "mk_time 5"] ok p(1)
  have 1: "snd (cancel_task (mk_time 5) ?q ''t'') = True
    \<and> status (task_objs (fst (cancel_task (mk_time 5) ?q ''t'')) 1) = ''cancelled''
    \<and> get_task (fst (cancel_task (mk_time 5) ?q ''t'')) ''t'' = Some 1
    \<and> Some 1 \<notin> set (dequeue_many (fst (cancel_task (mk_time 5) ?q ''t'')) [None, None])"
    by blast
  from C9_cancel_task[of ?q "''zz''" 1 "mk_time 5"] p(2)
  have 2: "cancel_task (mk_time 5) ?q ''zz'' = (?q, False)" by blast
  from 1 2 show ?thesis by blast
qed

section \<open>Dependency gating\<close>




section \<open>Priority order of dequeued tasks\<close>



section \<open>Message immutability on the bus\<close>

lemma publish_store: "msg_store (publish bus r) = msg_store bus"
  by (simp add: publish_def Let_def)

text \<open>
  C8, as stated, fails: \<open>send_direct\<close> assigns \<open>message.recipient = recipient_id\<close>
  on the caller's message object before publishing it. A message addressed to
  \<open>agent-a\<close> and sent directly to \<open>agent-b\<close> has its recipient field overwritten.
\<close>

theorem C8_send_direct_mutates_recipient:
  "recipient (msg_store
      (send_direct
         (InMemoryMessageBus_init (\<lambda>_. \<lparr> sender = ''s'', recipient = ''agent-a'',
             message_type = REQUEST, payload = [], priority = NORMAL, msg_context = [],
             correlation_id = ''c1'', parent_id = None,
             timestamp = \<lparr> dt_year = 2024, dt_month = 1, dt_day = 1, dt_hour = 0,
                           dt_minute = 0, dt_second = 0, dt_microsecond = 0 \<rparr>,
             metadata = [] \<rparr>))
         ''agent-b'' 0) 0) = ''agent-b''
   \<and> recipient (msg_store
      (InMemoryMessageBus_init (\<lambda>_. \<lparr> sender = ''s'', recipient = ''agent-a'',
             message_type = REQUEST, payload = [], priority = NORMAL, msg_context = [],
             correlation_id = ''c1'', parent_id = None,
             timestamp = \<lparr> dt_year = 2024, dt_month = 1, dt_day = 1, dt_hour = 0,
                           dt_minute = 0, dt_second = 0, dt_microsecond = 0 \<rparr>,
             metadata = [] \<rparr>)) 0) = ''agent-a''"
  by (simp add: send_direct_def publish_def InMemoryMessageBus_init_def Let_def)

text \<open>
  C8 (amended): \<open>publish\<close>, \<open>subscribe\<close>, \<open>unsubscribe\<close> and
  \<open>register_direct_handler\<close> leave every message object unchanged; \<open>send_direct\<close>
  overwrites the recipient of the message it is given with \<open>recipient_id\<close> and leaves
  all its other fields, and every other message object, unchanged; \<open>create_response\<close>
  returns a new message whose correlation id is the request's.
\<close>

theorem C8_bus_message_frame:
  "msg_store (publish bus r) = msg_store bus
   \<and> msg_store (subscribe bus sid mts sf) = msg_store bus
   \<and> msg_store (unsubscribe bus sid) = msg_store bus
   \<and> msg_store (register_direct_handler bus sid) = msg_store bus
   \<and> msg_store (send_direct bus rid r) =
       (msg_store bus)(r := (msg_store bus r)\<lparr> recipient := rid \<rparr>)
   \<and> correlation_id (create_response now (msg_store bus r) snd' pl mt)
       = correlation_id (msg_store bus r)
   \<and> recipient (create_response now (msg_store bus r) snd' pl mt) = sender (msg_store bus r)"
  by (simp add: publish_def subscribe_def unsubscribe_def register_direct_handler_def
      send_direct_def create_response_def Let_def)

end
